theory Spec2Isabelle
  imports Main "HOL-Library.AList"
begin

section \<open>JavaScript values\<close>

text \<open>
  Everything the route handlers receive from the request body, from the model and from the
  store is an untyped JavaScript value (\<open>any\<close>).  Numbers are restricted to integers, which
  is what the prompts ask the model for; \<open>undefined\<close> is the absence of a value
  (\<open>None\<close> of \<open>json option\<close>).
\<close>

datatype json =
    JNull
  | JBool bool
  | JNum int
  | JStr string
  | JArr "json list"
  | JObj "(string \<times> json) list"

text \<open>Property access \<open>v.k\<close> / \<open>v?.[k]\<close> for the fixed column names the handlers use:
  only an object has them.\<close>

definition js_get :: "json \<Rightarrow> string \<Rightarrow> json option" where
  "js_get v k = (case v of JObj kvs \<Rightarrow> map_of kvs k | _ \<Rightarrow> None)"

text \<open>Optional chaining \<open>a?.k\<close> on a value that may be \<open>undefined\<close> or \<open>null\<close>.\<close>

definition js_opt_get :: "json option \<Rightarrow> string \<Rightarrow> json option" where
  "js_opt_get a k = (case a of None \<Rightarrow> None | Some v \<Rightarrow> js_get v k)"

definition nullish :: "json option \<Rightarrow> bool" where
  "nullish a = (a = None \<or> a = Some JNull)"

text \<open>\<open>a ?? b\<close> with \<open>b\<close> possibly undefined, and \<open>a ?? d\<close> with a literal default.\<close>

definition js_or :: "json option \<Rightarrow> json option \<Rightarrow> json option" where
  "js_or a b = (if nullish a then b else a)"

definition js_default :: "json option \<Rightarrow> json \<Rightarrow> json" where
  "js_default a d = (case a of None \<Rightarrow> d | Some v \<Rightarrow> if v = JNull then d else v)"

fun truthy :: "json \<Rightarrow> bool" where
  "truthy JNull = False"
| "truthy (JBool b) = b"
| "truthy (JNum n) = (n \<noteq> 0)"
| "truthy (JStr s) = (s \<noteq> [])"
| "truthy (JArr xs) = True"
| "truthy (JObj kvs) = True"

definition truthy_opt :: "json option \<Rightarrow> bool" where
  "truthy_opt a = (case a of None \<Rightarrow> False | Some v \<Rightarrow> truthy v)"

text \<open>\<open>typeof v === "object"\<close> on a value already known not to be \<open>null\<close>.\<close>

fun is_object :: "json \<Rightarrow> bool" where
  "is_object (JArr xs) = True"
| "is_object (JObj kvs) = True"
| "is_object v = False"

fun isArray :: "json \<Rightarrow> bool" where
  "isArray (JArr xs) = True"
| "isArray v = False"

subsection \<open>Strings\<close>

text \<open>
  A string is the sequence of its UTF-8 bytes.  \<open>white_space\<close> lists the code points
  \<open>String.prototype.trim\<close> strips, each as its bytes: tab, line feed, vertical tab, form
  feed, carriage return, space, U+00A0, U+1680, U+2000 to U+200A, U+2028, U+2029, U+202F,
  U+205F, U+3000 and U+FEFF.
\<close>

definition white_space :: "string list" where
  "white_space =
     [[CHR 0x09], [CHR 0x0A], [CHR 0x0B], [CHR 0x0C], [CHR 0x0D], [CHR 0x20],
      [CHR 0xC2, CHR 0xA0],
      [CHR 0xE1, CHR 0x9A, CHR 0x80],
      [CHR 0xE2, CHR 0x80, CHR 0x80], [CHR 0xE2, CHR 0x80, CHR 0x81],
      [CHR 0xE2, CHR 0x80, CHR 0x82], [CHR 0xE2, CHR 0x80, CHR 0x83],
      [CHR 0xE2, CHR 0x80, CHR 0x84], [CHR 0xE2, CHR 0x80, CHR 0x85],
      [CHR 0xE2, CHR 0x80, CHR 0x86], [CHR 0xE2, CHR 0x80, CHR 0x87],
      [CHR 0xE2, CHR 0x80, CHR 0x88], [CHR 0xE2, CHR 0x80, CHR 0x89],
      [CHR 0xE2, CHR 0x80, CHR 0x8A],
      [CHR 0xE2, CHR 0x80, CHR 0xA8], [CHR 0xE2, CHR 0x80, CHR 0xA9],
      [CHR 0xE2, CHR 0x80, CHR 0xAF],
      [CHR 0xE2, CHR 0x81, CHR 0x9F],
      [CHR 0xE3, CHR 0x80, CHR 0x80],
      [CHR 0xEF, CHR 0xBB, CHR 0xBF]]"

text \<open>Dropping from the front of a string every leading occurrence of one of the given
  byte sequences.\<close>

fun strip :: "string list \<Rightarrow> string \<Rightarrow> string" where
  "strip qs [] = []"
| "strip qs (c # cs) =
     (case find (\<lambda>q. take (length q) (c # cs) = q) qs of
        None \<Rightarrow> c # cs
      | Some q \<Rightarrow> strip qs (drop (length q - 1) cs))"

text \<open>\<open>s.trim()\<close>: white space stripped at both ends; at the end the bytes of a code
  point are met in reverse.\<close>

definition trim :: "string \<Rightarrow> string" where
  "trim s = rev (strip (map rev white_space) (rev (strip white_space s)))"

definition digit_char :: "nat \<Rightarrow> char" where
  "digit_char d = char_of (48 + d)"

fun nat_digits :: "nat \<Rightarrow> string" where
  "nat_digits n = (if n < 10 then [digit_char n]
     else nat_digits (n div 10) @ [digit_char (n mod 10)])"

declare nat_digits.simps [simp del]

definition int_string :: "int \<Rightarrow> string" where
  "int_string i = (if i < 0 then CHR ''-'' # nat_digits (nat (- i)) else nat_digits (nat i))"

fun join_comma :: "string list \<Rightarrow> string" where
  "join_comma [] = []"
| "join_comma [s] = s"
| "join_comma (s # t # ss) = s @ '','' @ join_comma (t # ss)"

text \<open>\<open>String(v)\<close>: an array joins its elements with commas, \<open>null\<close> elements
  as the empty string.\<close>

fun js_String :: "json \<Rightarrow> string" where
  "js_String JNull = ''null''"
| "js_String (JBool b) = (if b then ''true'' else ''false'')"
| "js_String (JNum n) = int_string n"
| "js_String (JStr s) = s"
| "js_String (JArr xs) = join_comma (map (\<lambda>x. if x = JNull then [] else js_String x) xs)"
| "js_String (JObj kvs) = ''[object Object]''"

section \<open>The store\<close>

datatype LifecycleStage =
    CREATED
  | FETCHED_HTML
  | EXTRACTED_BASE
  | AI_PARSED
  | NEEDS_CONFIRMATION
  | CONFIRMED
  | STATS_RUNNING
  | STATS_NEEDS_CONFIRMATION
  | STATS_READY
  | STATS_FAILED
  | EVAL_RUNNING
  | AI_READY
  | EVAL_FAILED
  | VIDEO_REQUESTED
  | VIDEO_READY

text \<open>A row of \<open>property_sessions\<close>.\<close>

record session_row =
  s_id :: string
  s_user_id :: string
  rightmove_url :: string
  rightmove_listing_id :: "string option"
  status :: LifecycleStage
  last_extracted_at :: "string option"

text \<open>A row of \<open>usage_counters\<close> (without its \<open>user_id\<close>, the key), for the three
  metered actions the handlers consume.\<close>

record usage_row =
  extract_used :: int
  extract_limit :: int
  stats_used :: int
  stats_limit :: int
  evaluate_used :: int
  evaluate_limit :: int

text \<open>A row of \<open>usage_ledger\<close>, with the columns the handlers write.\<close>

record ledger_row =
  l_user_id :: string
  action_type :: string
  delta :: int
  reason :: string
  direction :: string
  l_action :: string
  l_note :: string
  amount :: int

text \<open>
  The store: \<open>property_sessions\<close> and \<open>usage_ledger\<close> are lists of rows; the tables
  written by upsert are association lists on their conflict key (\<open>user_id\<close> for
  \<open>usage_counters\<close> and \<open>preferences\<close>, \<open>property_session_id\<close> for the artifacts).
  The store has no schema here: a statement succeeds, except the upsert of the confirm
  route, whose error the environment supplies.  \<open>ai_calls\<close> counts the requests sent to the
  model.
\<close>

record world =
  property_sessions :: "session_row list"
  usage_counters :: "(string \<times> usage_row) list"
  usage_ledger :: "ledger_row list"
  listing_facts_raw :: "(string \<times> json) list"
  listing_facts_confirmed :: "(string \<times> json) list"
  listing_stats_raw :: "(string \<times> json) list"
  listing_stats_confirmed :: "(string \<times> json) list"
  listing_evaluation_raw :: "(string \<times> json) list"
  preferences :: "(string \<times> json) list"
  ai_calls :: nat

text \<open>What a handler can throw.\<close>

datatype exn =
    StoreError string
  | SyntaxError
  | FetchError
  | ModelError
  | MustError string
  | MAX_LINKS_REACHED nat

text \<open>
  What a request sees of the outside: the identity service, the API credential, the page
  fetch, the model's answer (\<open>None\<close>: the call throws; \<open>Some None\<close>: no
  \<open>output_text\<close>), \<open>JSON.parse\<close> (\<open>None\<close>: it throws), the runtime's conversion of a
  string to a number, the clock, the id the store gives a new session, the column
  defaults of \<open>usage_counters\<close>, the store's answer to the upsert of a row into
  \<open>listing_stats_confirmed\<close> and \<open>listing_facts_confirmed\<close> by the two confirm
  routes, into \<open>listing_facts_raw\<close> by extract and into \<open>listing_evaluation_raw\<close> by
  evaluate (\<open>None\<close>: the row is taken; the tables' columns and constraints are not part of
  the sources), the message of the identity service's error for a token, the stack the
  runtime gives a thrown error, and the extract route's \<open>extractSnippets\<close>, a function of
  the page whose result reaches only the prompt and the response bodies.
\<close>

record env =
  getUser :: "string \<Rightarrow> string option"
  OPENAI_API_KEY :: bool
  fetchRightmoveHtml :: "string \<Rightarrow> string option"
  responses_create :: "string option option"
  JSON_parse :: "string \<Rightarrow> json option"
  StringToNumber :: "string \<Rightarrow> json"
  nowIso :: string
  new_session_id :: string
  usage_defaults :: usage_row
  upsert_stats_confirmed :: "json \<Rightarrow> exn option"
  upsert_facts_confirmed :: "json \<Rightarrow> exn option"
  upsert_facts_raw :: "json \<Rightarrow> exn option"
  upsert_evaluation_raw :: "json \<Rightarrow> exn option"
  userErr_message :: "string \<Rightarrow> string option"
  stack_of :: "exn \<Rightarrow> string option"
  extractSnippets :: "string \<Rightarrow> string list"

text \<open>\<open>.single()\<close> and \<open>.maybeSingle()\<close> on the rows a query selects.\<close>

fun single :: "'a list \<Rightarrow> exn + 'a" where
  "single [r] = Inr r"
| "single rs = Inl (StoreError ''PGRST116'')"

fun maybeSingle :: "'a list \<Rightarrow> exn + 'a option" where
  "maybeSingle [] = Inr None"
| "maybeSingle [r] = Inr (Some r)"
| "maybeSingle rs = Inl (StoreError ''PGRST116'')"

section \<open>Quota and ledger\<close>

datatype action = Extract | Stats | Evaluate

fun action_name :: "action \<Rightarrow> string" where
  "action_name Extract = ''extract''"
| "action_name Stats = ''stats''"
| "action_name Evaluate = ''evaluate''"

fun action_note :: "action \<Rightarrow> string" where
  "action_note Extract = ''Extract invoked via /api/extract''"
| "action_note Stats = ''Stats invoked via /api/stats''"
| "action_note Evaluate = ''Evaluation invoked via /api/evaluate''"

fun used_of :: "action \<Rightarrow> usage_row \<Rightarrow> int" where
  "used_of Extract c = extract_used c"
| "used_of Stats c = stats_used c"
| "used_of Evaluate c = evaluate_used c"

fun limit_of :: "action \<Rightarrow> usage_row \<Rightarrow> int" where
  "limit_of Extract c = extract_limit c"
| "limit_of Stats c = stats_limit c"
| "limit_of Evaluate c = evaluate_limit c"

fun set_used :: "action \<Rightarrow> int \<Rightarrow> usage_row \<Rightarrow> usage_row" where
  "set_used Extract n c = c\<lparr>extract_used := n\<rparr>"
| "set_used Stats n c = c\<lparr>stats_used := n\<rparr>"
| "set_used Evaluate n c = c\<lparr>evaluate_used := n\<rparr>"

record quota =
  ok :: bool
  used :: int
  limit :: int

text \<open>\<open>upsert({ user_id }, { onConflict: "user_id" })\<close>: an existing row keeps its
  columns, a new one gets the column defaults.\<close>

definition ensureUsageRow :: "env \<Rightarrow> world \<Rightarrow> string \<Rightarrow> world" where
  "ensureUsageRow e w userId =
     (case map_of (usage_counters w) userId of
        Some c \<Rightarrow> w
      | None \<Rightarrow> w\<lparr>usage_counters := usage_counters w @ [(userId, usage_defaults e)]\<rparr>)"

definition usage_entry :: "string \<Rightarrow> action \<Rightarrow> ledger_row" where
  "usage_entry userId a =
     \<lparr>l_user_id = userId, action_type = action_name a, delta = - 1, reason = ''usage'',
      direction = ''debit'', l_action = action_name a, l_note = action_note a, amount = 1\<rparr>"

text \<open>The three route files each carry their own copy of \<open>checkAndConsumeQuota\<close>, the same
  up to the action's name, columns and note.\<close>

definition checkAndConsumeQuota :: "env \<Rightarrow> world \<Rightarrow> string \<Rightarrow> action \<Rightarrow> (exn + quota) \<times> world" where
  "checkAndConsumeQuota e w userId a =
     (let w1 = ensureUsageRow e w userId in
      case map_of (usage_counters w1) userId of
        None \<Rightarrow> (Inl (StoreError ''PGRST116''), w1)
      | Some counters \<Rightarrow>
          let used = used_of a counters; limit = limit_of a counters in
          if used \<ge> limit then (Inr \<lparr>ok = False, used = used, limit = limit\<rparr>, w1)
          else
            let w2 = w1\<lparr>usage_counters :=
                       AList.update userId (set_used a (used + 1) counters) (usage_counters w1)\<rparr>;
                w3 = w2\<lparr>usage_ledger := usage_ledger w2 @ [usage_entry userId a]\<rparr>
            in (Inr \<lparr>ok = True, used = used + 1, limit = limit\<rparr>, w3))"

text \<open>The counters a read of \<open>usage_counters\<close> finds for a user once the row is ensured:
  the stored row, or the column defaults.\<close>

definition counters_row :: "env \<Rightarrow> world \<Rightarrow> string \<Rightarrow> usage_row" where
  "counters_row e w userId =
     (case map_of (usage_counters w) userId of Some c \<Rightarrow> c | None \<Rightarrow> usage_defaults e)"

section \<open>Responses\<close>

datatype response = Response (http_status: nat) (payload: json)

fun message :: "exn \<Rightarrow> string" where
  "message (StoreError m) = m"
| "message SyntaxError = ''Unexpected token in JSON''"
| "message FetchError = ''Rightmove fetch failed''"
| "message ModelError = ''model request failed''"
| "message (MustError m) = m"
| "message (MAX_LINKS_REACHED n) = ''MAX_LINKS_REACHED''"

definition error_body :: "string \<Rightarrow> json" where
  "error_body m = JObj [(''error'', JStr m)]"

text \<open>The \<open>catch\<close> of a handler: the thrown error's message under the handler's status.\<close>

definition caught :: "nat \<Rightarrow> exn \<Rightarrow> response" where
  "caught c err = Response c (error_body (message err))"

fun stage_name :: "LifecycleStage \<Rightarrow> string" where
  "stage_name CREATED = ''CREATED''"
| "stage_name FETCHED_HTML = ''FETCHED_HTML''"
| "stage_name EXTRACTED_BASE = ''EXTRACTED_BASE''"
| "stage_name AI_PARSED = ''AI_PARSED''"
| "stage_name NEEDS_CONFIRMATION = ''NEEDS_CONFIRMATION''"
| "stage_name CONFIRMED = ''CONFIRMED''"
| "stage_name STATS_RUNNING = ''STATS_RUNNING''"
| "stage_name STATS_NEEDS_CONFIRMATION = ''STATS_NEEDS_CONFIRMATION''"
| "stage_name STATS_READY = ''STATS_READY''"
| "stage_name STATS_FAILED = ''STATS_FAILED''"
| "stage_name EVAL_RUNNING = ''EVAL_RUNNING''"
| "stage_name AI_READY = ''AI_READY''"
| "stage_name EVAL_FAILED = ''EVAL_FAILED''"
| "stage_name VIDEO_REQUESTED = ''VIDEO_REQUESTED''"
| "stage_name VIDEO_READY = ''VIDEO_READY''"

definition quota_exceeded :: "quota \<Rightarrow> json" where
  "quota_exceeded q =
     JObj [(''error'', JStr ''Quota exceeded''), (''used'', JNum (used q)), (''limit'', JNum (limit q))]"

definition ok_status :: "LifecycleStage \<Rightarrow> json" where
  "ok_status st = JObj [(''ok'', JBool True), (''status'', JStr (stage_name st))]"

section \<open>Session status\<close>

definition guard_matches :: "string \<Rightarrow> string \<Rightarrow> LifecycleStage list \<Rightarrow> session_row \<Rightarrow> bool" where
  "guard_matches sessionId userId frm r =
     (s_id r = sessionId \<and> s_user_id r = userId \<and> status r \<in> set frm)"

text \<open>
  \<open>update({ status: to }).eq("id", \<dots>).eq("user_id", \<dots>).in("status", from).select("id").maybeSingle()\<close>:
  one statement.  No row updated is \<open>data = null\<close>; a request for a single object that
  would return several rows is an error and changes nothing.
\<close>

definition setStatusGuarded ::
  "world \<Rightarrow> string \<Rightarrow> string \<Rightarrow> LifecycleStage list \<Rightarrow> LifecycleStage \<Rightarrow> (exn + bool) \<times> world" where
  "setStatusGuarded w sessionId userId frm target =
     (case maybeSingle (filter (guard_matches sessionId userId frm) (property_sessions w)) of
        Inl err \<Rightarrow> (Inl err, w)
      | Inr None \<Rightarrow> (Inr False, w)
      | Inr (Some r) \<Rightarrow>
          (Inr True,
           w\<lparr>property_sessions :=
               map (\<lambda>r. if guard_matches sessionId userId frm r then r\<lparr>status := target\<rparr> else r)
                 (property_sessions w)\<rparr>))"

text \<open>\<open>update({ status }).eq("id", sessionId)\<close>, as the stats, confirm and evaluate routes
  write a status.\<close>

definition set_status :: "world \<Rightarrow> string \<Rightarrow> LifecycleStage \<Rightarrow> world" where
  "set_status w sessionId st =
     w\<lparr>property_sessions :=
         map (\<lambda>r. if s_id r = sessionId then r\<lparr>status := st\<rparr> else r) (property_sessions w)\<rparr>"

text \<open>The extract route's \<open>updateSessionStatus\<close> also stamps \<open>last_extracted_at\<close>.\<close>

definition updateSessionStatus :: "env \<Rightarrow> world \<Rightarrow> string \<Rightarrow> LifecycleStage \<Rightarrow> world" where
  "updateSessionStatus e w sessionId st =
     w\<lparr>property_sessions :=
         map (\<lambda>r. if s_id r = sessionId
                  then r\<lparr>status := st, last_extracted_at := Some (nowIso e)\<rparr> else r)
           (property_sessions w)\<rparr>"

section \<open>Reading the model's answer\<close>

text \<open>The match of \<open>/\\{[\\s\\S]*\\}/\<close>: from the first opening brace to the last closing
  brace after it.\<close>

definition match_braces :: "string \<Rightarrow> string option" where
  "match_braces s =
     (let t = dropWhile (\<lambda>c. c \<noteq> CHR 0x7B) s;
          m = rev (dropWhile (\<lambda>c. c \<noteq> CHR 0x7D) (rev t))
      in if m = [] then None else Some m)"

text \<open>\<open>parseJsonLoose\<close> of the stats and evaluate routes; \<open>JNull\<close> is its \<open>null\<close>,
  \<open>Inl\<close> the \<open>SyntaxError\<close> the second \<open>JSON.parse\<close> throws out of the \<open>catch\<close>
  block.\<close>

definition parseJsonLoose :: "env \<Rightarrow> string \<Rightarrow> exn + json" where
  "parseJsonLoose e text =
     (let trimmed = trim text in
      if trimmed = [] then Inr JNull
      else case JSON_parse e trimmed of
             Some v \<Rightarrow> Inr v
           | None \<Rightarrow>
               (case match_braces trimmed of
                  None \<Rightarrow> Inr JNull
                | Some m \<Rightarrow>
                    (case JSON_parse e m of Some v \<Rightarrow> Inr v | None \<Rightarrow> Inl SyntaxError)))"

text \<open>\<open>Number(v)\<close>; \<open>NaN\<close> reaches the store as \<open>null\<close>.\<close>

fun js_Number :: "env \<Rightarrow> json \<Rightarrow> json" where
  "js_Number e JNull = JNum 0"
| "js_Number e (JBool b) = JNum (if b then 1 else 0)"
| "js_Number e (JNum n) = JNum n"
| "js_Number e (JStr s) = StringToNumber e s"
| "js_Number e (JArr xs) = StringToNumber e (js_String (JArr xs))"
| "js_Number e (JObj kvs) = JNull"

section \<open>Compute-stats: \<open>POST /api/stats\<close>\<close>

definition reqFields :: "string list" where
  "reqFields =
     [''budget_max'', ''budget_flex'', ''min_bedrooms'', ''property_type_rank'',
      ''property_type_reject_below_index'', ''tenure_rank'', ''tenure_reject_below_index'',
      ''work_postcode'', ''transport_mode'', ''car_owner'', ''bike_owner'',
      ''transport_convenience_weight'', ''religion_required'', ''school_priority'',
      ''gym_priority'', ''has_children'', ''quiet_area_priority'', ''green_space_priority'',
      ''safety_weight'', ''cleanliness_weight'', ''storage_required'', ''affordability_weight'']"

text \<open>\<open>!p?.work_postcode || typeof p.work_postcode !== "string" || p.work_postcode.trim().length === 0\<close>\<close>

definition work_postcode_blank :: "json \<Rightarrow> bool" where
  "work_postcode_blank p =
     (case js_get p ''work_postcode'' of
        Some (JStr s) \<Rightarrow> s = [] \<or> trim s = []
      | _ \<Rightarrow> True)"

text \<open>\<open>!Array.isArray(p?.[k]) || p[k].length === 0\<close>\<close>

definition rank_empty :: "json \<Rightarrow> string \<Rightarrow> bool" where
  "rank_empty p k = (case js_get p k of Some (JArr xs) \<Rightarrow> xs = [] | _ \<Rightarrow> True)"

definition push_missing :: "bool \<Rightarrow> string \<Rightarrow> string list \<Rightarrow> string list" where
  "push_missing bad k missing = (if bad \<and> k \<notin> set missing then missing @ [k] else missing)"

definition checkMinimumPreferences :: "json \<Rightarrow> bool \<times> string list" where
  "checkMinimumPreferences p =
     (let m0 = filter (\<lambda>k. nullish (js_get p k)) reqFields;
          m1 = push_missing (work_postcode_blank p) ''work_postcode'' m0;
          m2 = push_missing (rank_empty p ''property_type_rank'') ''property_type_rank'' m1;
          m3 = push_missing (rank_empty p ''tenure_rank'') ''tenure_rank'' m2
      in (m3 = [], m3))"

definition requiredFields :: "string list" where
  "requiredFields =
     [''commute_total_minutes'', ''commute_walk_minutes'', ''commute_mode'',
      ''nearest_station_distance_m'', ''nearest_station_name'', ''supermarket_distance_m'',
      ''supermarket_name'', ''green_space_distance_m'', ''green_space_name'', ''safety_score'']"

definition isMediumOrHigh :: "string \<Rightarrow> bool" where
  "isMediumOrHigh c = (c = ''medium'' \<or> c = ''high'')"

text \<open>\<open>String(fields[k]?.confidence ?? parsed.required_confidence?.[k] ?? "low")\<close>\<close>

definition resolve_confidence :: "json \<Rightarrow> string \<Rightarrow> string" where
  "resolve_confidence parsed k =
     js_String
       (js_default
          (js_or (js_opt_get (js_opt_get (js_get parsed ''fields'') k) ''confidence'')
                 (js_opt_get (js_get parsed ''required_confidence'') k))
          (JStr ''low''))"

definition allOk :: "json \<Rightarrow> bool" where
  "allOk parsed = list_all (\<lambda>k. isMediumOrHigh (resolve_confidence parsed k)) requiredFields"

text \<open>\<open>Number(fields.k?.value ?? 0)\<close>, \<open>String(fields.k?.value ?? d)\<close> and
  \<open>String(fields.k?.f ?? d)\<close>, the entries of \<open>rawPayload\<close>.\<close>

definition num_value :: "env \<Rightarrow> json \<Rightarrow> string \<Rightarrow> json" where
  "num_value e parsed k =
     js_Number e (js_default (js_opt_get (js_opt_get (js_get parsed ''fields'') k) ''value'') (JNum 0))"

definition str_of :: "json \<Rightarrow> string \<Rightarrow> string \<Rightarrow> string \<Rightarrow> json" where
  "str_of parsed k f d =
     JStr (js_String (js_default (js_opt_get (js_opt_get (js_get parsed ''fields'') k) f) (JStr d)))"

definition or_null :: "json option \<Rightarrow> json" where
  "or_null a = js_default a JNull"

definition rawPayload :: "env \<Rightarrow> string \<Rightarrow> json \<Rightarrow> json" where
  "rawPayload e sessionId parsed = JObj
     [(''property_session_id'', JStr sessionId),
      (''stats_version'', js_Number e (js_default (js_get parsed ''stats_version'') (JNum 1))),
      (''computed_at'', JStr (nowIso e)),
      (''commute_total_minutes'', num_value e parsed ''commute_total_minutes''),
      (''commute_walk_minutes'', num_value e parsed ''commute_walk_minutes''),
      (''commute_mode'', str_of parsed ''commute_mode'' ''value'' []),
      (''commute_confidence'', str_of parsed ''commute_total_minutes'' ''confidence'' ''low''),
      (''commute_notes'', str_of parsed ''commute_total_minutes'' ''notes'' []),
      (''nearest_station_distance_m'', num_value e parsed ''nearest_station_distance_m''),
      (''nearest_station_name'', str_of parsed ''nearest_station_name'' ''value'' []),
      (''supermarket_distance_m'', num_value e parsed ''supermarket_distance_m''),
      (''supermarket_name'', str_of parsed ''supermarket_name'' ''value'' []),
      (''gym_distance_m'', num_value e parsed ''gym_distance_m''),
      (''gym_name'', str_of parsed ''gym_name'' ''value'' []),
      (''school_distance_m'', num_value e parsed ''school_distance_m''),
      (''school_name'', str_of parsed ''school_name'' ''value'' []),
      (''religious_building_distance_m'', num_value e parsed ''religious_building_distance_m''),
      (''religious_building_name'', str_of parsed ''religious_building_name'' ''value'' []),
      (''green_space_distance_m'', num_value e parsed ''green_space_distance_m''),
      (''green_space_name'', str_of parsed ''green_space_name'' ''value'' []),
      (''safety_score'', num_value e parsed ''safety_score''),
      (''cleanliness_score'', num_value e parsed ''cleanliness_score''),
      (''transport_convenience_score'', num_value e parsed ''transport_convenience_score''),
      (''service_charge_estimate_annual'', num_value e parsed ''service_charge_estimate_annual''),
      (''ground_rent_estimate_annual'', num_value e parsed ''ground_rent_estimate_annual''),
      (''running_costs_confidence'', str_of parsed ''running_costs_confidence'' ''value'' ''low''),
      (''running_costs_notes'', str_of parsed ''running_costs_notes'' ''value'' []),
      (''required_confidence'', or_null (js_get parsed ''required_confidence'')),
      (''required_source'', or_null (js_get parsed ''required_source'')),
      (''optional_confidence'', or_null (js_get parsed ''optional_confidence'')),
      (''optional_source'', or_null (js_get parsed ''optional_source''))]"

text \<open>The auto-confirmed row: the required fields as \<open>rawPayload\<close> has them.\<close>

definition confirmedPayload :: "env \<Rightarrow> string \<Rightarrow> json \<Rightarrow> json" where
  "confirmedPayload e sessionId parsed = JObj
     [(''property_session_id'', JStr sessionId),
      (''commute_total_minutes'', num_value e parsed ''commute_total_minutes''),
      (''commute_walk_minutes'', num_value e parsed ''commute_walk_minutes''),
      (''commute_mode'', str_of parsed ''commute_mode'' ''value'' []),
      (''nearest_station_distance_m'', num_value e parsed ''nearest_station_distance_m''),
      (''nearest_station_name'', str_of parsed ''nearest_station_name'' ''value'' []),
      (''supermarket_distance_m'', num_value e parsed ''supermarket_distance_m''),
      (''supermarket_name'', str_of parsed ''supermarket_name'' ''value'' []),
      (''green_space_distance_m'', num_value e parsed ''green_space_distance_m''),
      (''green_space_name'', str_of parsed ''green_space_name'' ''value'' []),
      (''safety_score'', num_value e parsed ''safety_score''),
      (''required_confidence'', or_null (js_get parsed ''required_confidence'')),
      (''required_source'', or_null (js_get parsed ''required_source'')),
      (''notes'', JStr ''Auto-confirmed (required fields medium/high)''),
      (''confirmed_by_user'', JBool False),
      (''confirmed_at'', JStr (nowIso e))]"

text \<open>The handler from the upsert of the raw stats on: the gate and the final status.\<close>

definition stats_persist :: "env \<Rightarrow> world \<Rightarrow> string \<Rightarrow> json \<Rightarrow> response \<times> world" where
  "stats_persist e w sessionId parsed =
     (let w1 = w\<lparr>listing_stats_raw :=
                  AList.update sessionId (rawPayload e sessionId parsed) (listing_stats_raw w)\<rparr>
      in if allOk parsed then
           (let w2 = w1\<lparr>listing_stats_confirmed :=
                  AList.update sessionId (confirmedPayload e sessionId parsed)
                    (listing_stats_confirmed w1)\<rparr>
            in (Response 200 (ok_status STATS_READY), set_status w2 sessionId STATS_READY))
         else (Response 200 (ok_status STATS_NEEDS_CONFIRMATION),
               set_status w1 sessionId STATS_NEEDS_CONFIRMATION))"

definition allowedFrom :: "bool \<Rightarrow> LifecycleStage list" where
  "allowedFrom forceRecalc =
     (if forceRecalc
      then [CONFIRMED, STATS_FAILED, STATS_READY, AI_READY, EVAL_FAILED, STATS_NEEDS_CONFIRMATION]
      else [CONFIRMED, STATS_FAILED, STATS_NEEDS_CONFIRMATION])"

definition conflict_body :: "LifecycleStage \<Rightarrow> json" where
  "conflict_body st =
     JObj [(''error'', JStr ''ALREADY_RUNNING_OR_INVALID_STATE''), (''status'', JStr (stage_name st))]"

text \<open>The handler from the guarded transition on.  \<open>currentStatus\<close> is the status the
  handler read before; \<open>w\<close> is the store when the guard's statement runs.\<close>

definition stats_from_guard ::
  "env \<Rightarrow> world \<Rightarrow> string \<Rightarrow> string \<Rightarrow> LifecycleStage \<Rightarrow> bool \<Rightarrow> response \<times> world" where
  "stats_from_guard e w userId sessionId currentStatus forceRecalc =
     (case setStatusGuarded w sessionId userId (allowedFrom forceRecalc) STATS_RUNNING of
        (Inl err, w1) \<Rightarrow> (caught 500 err, w1)
      | (Inr False, w1) \<Rightarrow> (Response 409 (conflict_body currentStatus), w1)
      | (Inr True, w1) \<Rightarrow>
          (case checkAndConsumeQuota e w1 userId Stats of
             (Inl err, w2) \<Rightarrow> (caught 500 err, w2)
           | (Inr q, w2) \<Rightarrow>
               if \<not> ok q then (Response 402 (quota_exceeded q), set_status w2 sessionId currentStatus)
               else if \<not> OPENAI_API_KEY e then
                 (Response 500 (error_body ''OPENAI_API_KEY missing''),
                  set_status w2 sessionId STATS_FAILED)
               else
                 (let w3 = w2\<lparr>ai_calls := Suc (ai_calls w2)\<rparr> in
                  case responses_create e of
                    None \<Rightarrow> (caught 500 ModelError, w3)
                  | Some output_text \<Rightarrow>
                      (case parseJsonLoose e (case output_text of None \<Rightarrow> [] | Some t \<Rightarrow> t) of
                         Inl err \<Rightarrow> (caught 500 err, w3)
                       | Inr parsed \<Rightarrow>
                           if \<not> truthy parsed \<or> \<not> is_object parsed
                              \<or> \<not> truthy_opt (js_get parsed ''fields'')
                           then (Response 500 (error_body ''AI returned non-JSON or missing fields''),
                                 set_status w3 sessionId STATS_FAILED)
                           else stats_persist e w3 sessionId parsed))))"

record stats_request =
  st_token :: "string option"
  st_property_session_id :: "string option"
  st_force_recalc :: "json option"

definition stats_POST :: "env \<Rightarrow> world \<Rightarrow> stats_request \<Rightarrow> response \<times> world" where
  "stats_POST e w req =
     (case st_token req of
        None \<Rightarrow> (Response 401 (error_body ''Missing bearer token''), w)
      | Some token \<Rightarrow>
     (case getUser e token of
        None \<Rightarrow> (Response 401 (error_body ''Invalid JWT''), w)
      | Some userId \<Rightarrow>
     (case st_property_session_id req of
        None \<Rightarrow> (Response 400 (error_body ''property_session_id required''), w)
      | Some sessionId \<Rightarrow>
          if sessionId = [] then (Response 400 (error_body ''property_session_id required''), w)
          else
     (case single (filter (\<lambda>r. s_id r = sessionId) (property_sessions w)) of
        Inl err \<Rightarrow> (caught 500 err, w)
      | Inr session \<Rightarrow>
          if s_user_id session \<noteq> userId then (Response 403 (error_body ''Forbidden''), w)
          else
     (case map_of (listing_facts_confirmed w) sessionId of
        None \<Rightarrow> (Response 400 (error_body ''Listing not confirmed''), w)
      | Some facts \<Rightarrow>
     (case map_of (preferences w) userId of
        None \<Rightarrow> (Response 400 (error_body ''Preferences not found''), w)
      | Some prefs \<Rightarrow>
          (let minp = checkMinimumPreferences prefs in
           if \<not> fst minp then
             (Response 400
                (JObj [(''error'', JStr ''MIN_PREFS_MISSING''), (''missing'', JArr (map JStr (snd minp)))]),
              w)
           else stats_from_guard e w userId sessionId (status session)
                  (truthy_opt (st_force_recalc req)))))))))"

section \<open>Manual stats confirmation: \<open>POST /api/stats/confirm\<close>\<close>

text \<open>\<open>must(v, msg)\<close> throws on \<open>null\<close>, \<open>undefined\<close> and a blank string; the type
  parameter is erased.\<close>

definition must :: "json option \<Rightarrow> string \<Rightarrow> exn + json" where
  "must v msg =
     (case v of
        None \<Rightarrow> Inl (MustError msg)
      | Some JNull \<Rightarrow> Inl (MustError msg)
      | Some (JStr s) \<Rightarrow> if trim s = [] then Inl (MustError msg) else Inr (JStr s)
      | Some x \<Rightarrow> Inr x)"

text \<open>The core fields of the confirm payload, each \<open>must(stats.k, "k required")\<close>, in
  the order the object literal evaluates them.\<close>

definition confirm_fields :: "string list" where
  "confirm_fields =
     [''commute_total_minutes'', ''commute_walk_minutes'', ''commute_mode'',
      ''nearest_station_distance_m'', ''nearest_station_name'', ''supermarket_distance_m'',
      ''supermarket_name'', ''green_space_distance_m'', ''green_space_name'', ''safety_score'']"

fun must_fields :: "json \<Rightarrow> string list \<Rightarrow> exn + (string \<times> json) list" where
  "must_fields stats [] = Inr []"
| "must_fields stats (k # ks) =
     (case must (js_get stats k) (k @ '' required'') of
        Inl err \<Rightarrow> Inl err
      | Inr v \<Rightarrow>
          (case must_fields stats ks of Inl err \<Rightarrow> Inl err | Inr kvs \<Rightarrow> Inr ((k, v) # kvs)))"

definition confirm_payload :: "env \<Rightarrow> json \<Rightarrow> json \<Rightarrow> (string \<times> json) list \<Rightarrow> json" where
  "confirm_payload e sessionId stats core = JObj
     ([(''property_session_id'', sessionId)] @ core @
      [(''required_confidence'', or_null (js_get stats ''required_confidence'')),
       (''required_source'', or_null (js_get stats ''required_source'')),
       (''notes'', js_default (js_get stats ''notes'') (JStr ''Confirmed by user'')),
       (''confirmed_by_user'', JBool True),
       (''confirmed_at'', JStr (nowIso e))])"

record confirm_request =
  cf_token :: "string option"
  cf_property_session_id :: "json option"
  cf_stats :: "json option"

text \<open>The session id is used as the request gave it; only a string names a row.\<close>

definition id_key :: "json \<Rightarrow> string option" where
  "id_key v = (case v of JStr s \<Rightarrow> Some s | _ \<Rightarrow> None)"

definition confirm_POST :: "env \<Rightarrow> world \<Rightarrow> confirm_request \<Rightarrow> response \<times> world" where
  "confirm_POST e w req =
     (case cf_token req of
        None \<Rightarrow> (Response 401 (error_body ''Missing bearer token''), w)
      | Some token \<Rightarrow>
     (case getUser e token of
        None \<Rightarrow> (Response 401 (error_body ''Invalid JWT''), w)
      | Some userId \<Rightarrow>
     (case must (cf_property_session_id req) ''property_session_id required'' of
        Inl err \<Rightarrow> (caught 400 err, w)
      | Inr sessionId \<Rightarrow>
     (case must (cf_stats req) ''stats required'' of
        Inl err \<Rightarrow> (caught 400 err, w)
      | Inr stats \<Rightarrow>
     (case single (filter (\<lambda>r. Some (s_id r) = id_key sessionId) (property_sessions w)) of
        Inl err \<Rightarrow> (caught 400 err, w)
      | Inr s \<Rightarrow>
          if s_user_id s \<noteq> userId then (Response 403 (error_body ''Forbidden''), w)
          else if status s \<noteq> STATS_NEEDS_CONFIRMATION then
            (Response 409
               (JObj [(''error'', JStr ''Invalid state''), (''status'', JStr (stage_name (status s)))]),
             w)
          else
     (case must_fields stats confirm_fields of
        Inl err \<Rightarrow> (caught 400 err, w)
      | Inr core \<Rightarrow>
     (case upsert_stats_confirmed e (confirm_payload e sessionId stats core) of
        Some upErr \<Rightarrow> (caught 400 upErr, w)
      | None \<Rightarrow>
          (let w1 = w\<lparr>listing_stats_confirmed :=
                       AList.update (s_id s) (confirm_payload e sessionId stats core)
                         (listing_stats_confirmed w)\<rparr>
           in (Response 200 (ok_status STATS_READY), set_status w1 (s_id s) STATS_READY)))))))))"

section \<open>Manual facts confirmation: \<open>POST /api/confirm\<close>\<close>





section \<open>Evaluate: \<open>POST /api/evaluate\<close>\<close>

definition evalPayload :: "env \<Rightarrow> string \<Rightarrow> json \<Rightarrow> json" where
  "evalPayload e sessionId parsed = JObj
     [(''property_session_id'', JStr sessionId),
      (''rank_score'', or_null (js_get parsed ''rank_score'')),
      (''overall_score'', or_null (js_get parsed ''overall_score'')),
      (''executive_summary'', JStr (js_String (js_default (js_get parsed ''executive_summary'') (JStr [])))),
      (''estate_agent_snippet'',
         JStr (js_String (js_default (js_get parsed ''estate_agent_snippet'') (JStr [])))),
      (''per_preference'', js_default (js_get parsed ''per_preference'') (JObj [])),
      (''warnings'', or_null (js_get parsed ''warnings'')),
      (''assumptions'', or_null (js_get parsed ''assumptions'')),
      (''model_info'', js_default (js_get parsed ''model_info'') (JObj [(''schema_version'', JNum 1)])),
      (''evaluated_at'', JStr (nowIso e))]"

definition evalFrom :: "LifecycleStage list" where
  "evalFrom = [STATS_READY, AI_READY, EVAL_FAILED]"

text \<open>The handler from the guarded transition on, as for compute-stats.\<close>

definition evaluate_from_guard ::
  "env \<Rightarrow> world \<Rightarrow> string \<Rightarrow> string \<Rightarrow> LifecycleStage \<Rightarrow> response \<times> world" where
  "evaluate_from_guard e w userId sessionId currentStatus =
     (case setStatusGuarded w sessionId userId evalFrom EVAL_RUNNING of
        (Inl err, w1) \<Rightarrow> (caught 500 err, w1)
      | (Inr False, w1) \<Rightarrow> (Response 409 (conflict_body currentStatus), w1)
      | (Inr True, w1) \<Rightarrow>
          if map_of (listing_facts_confirmed w1) sessionId = None then
            (Response 400 (error_body ''Listing not confirmed''), set_status w1 sessionId currentStatus)
          else if map_of (listing_stats_confirmed w1) sessionId = None then
            (Response 400 (error_body ''Stats not ready''), set_status w1 sessionId currentStatus)
          else if map_of (preferences w1) userId = None then
            (Response 400 (error_body ''Preferences not found''), set_status w1 sessionId currentStatus)
          else
          (case checkAndConsumeQuota e w1 userId Evaluate of
             (Inl err, w2) \<Rightarrow> (caught 500 err, w2)
           | (Inr q, w2) \<Rightarrow>
               if \<not> ok q then (Response 402 (quota_exceeded q), set_status w2 sessionId currentStatus)
               else if \<not> OPENAI_API_KEY e then
                 (Response 500 (error_body ''OPENAI_API_KEY missing''),
                  set_status w2 sessionId EVAL_FAILED)
               else
                 (let w3 = w2\<lparr>ai_calls := Suc (ai_calls w2)\<rparr> in
                  case responses_create e of
                    None \<Rightarrow> (caught 500 ModelError, w3)
                  | Some output_text \<Rightarrow>
                      (case parseJsonLoose e (case output_text of None \<Rightarrow> [] | Some t \<Rightarrow> t) of
                         Inl err \<Rightarrow> (caught 500 err, w3)
                       | Inr parsed \<Rightarrow>
                           if \<not> truthy parsed \<or> \<not> is_object parsed
                           then (Response 500 (error_body ''AI returned non-JSON''),
                                 set_status w3 sessionId EVAL_FAILED)
                           else
                             (case upsert_evaluation_raw e (evalPayload e sessionId parsed) of
                                Some evErr \<Rightarrow> (caught 500 evErr, w3)
                              | None \<Rightarrow>
                                  (let w4 = w3\<lparr>listing_evaluation_raw :=
                                              AList.update sessionId (evalPayload e sessionId parsed)
                                                (listing_evaluation_raw w3)\<rparr>
                                   in (Response 200 (ok_status AI_READY),
                                       set_status w4 sessionId AI_READY)))))))"

record evaluate_request =
  ev_token :: "string option"
  ev_property_session_id :: "string option"

definition evaluate_POST :: "env \<Rightarrow> world \<Rightarrow> evaluate_request \<Rightarrow> response \<times> world" where
  "evaluate_POST e w req =
     (case ev_token req of
        None \<Rightarrow> (Response 401 (error_body ''Missing bearer token''), w)
      | Some token \<Rightarrow>
     (case getUser e token of
        None \<Rightarrow> (Response 401 (error_body ''Invalid JWT''), w)
      | Some userId \<Rightarrow>
     (case ev_property_session_id req of
        None \<Rightarrow> (Response 400 (error_body ''property_session_id required''), w)
      | Some sessionId \<Rightarrow>
          if sessionId = [] then (Response 400 (error_body ''property_session_id required''), w)
          else
     (case single (filter (\<lambda>r. s_id r = sessionId) (property_sessions w)) of
        Inl err \<Rightarrow> (caught 500 err, w)
      | Inr session \<Rightarrow>
          if s_user_id session \<noteq> userId then (Response 403 (error_body ''Forbidden''), w)
          else if status session \<noteq> STATS_READY \<and> status session \<noteq> AI_READY
                  \<and> status session \<noteq> EVAL_FAILED then
            (Response 409
               (JObj [(''error'', JStr ''Invalid state''),
                      (''status'', JStr (stage_name (status session)))]),
             w)
          else evaluate_from_guard e w userId sessionId (status session)))))"

section \<open>Extract: \<open>POST /api/extract\<close>\<close>

definition is_digit :: "char \<Rightarrow> bool" where
  "is_digit c = (48 \<le> (of_char c :: nat) \<and> (of_char c :: nat) \<le> 57)"

definition lower :: "char \<Rightarrow> char" where
  "lower c = (if 65 \<le> (of_char c :: nat) \<and> (of_char c :: nat) \<le> 90
              then char_of ((of_char c :: nat) + 32) else c)"

text \<open>\<open>url.match(/rightmove\\.co\\.uk\\/properties\\/(\\d+)/i)\<close>: the digits after the
  leftmost occurrence of the path that has a digit after it.\<close>

fun parseRightmoveListingId :: "string \<Rightarrow> string option" where
  "parseRightmoveListingId [] = None"
| "parseRightmoveListingId (c # cs) =
     (let ds = takeWhile is_digit (drop 27 (c # cs)) in
      if map lower (take 27 (c # cs)) = ''rightmove.co.uk/properties/'' \<and> ds \<noteq> []
      then Some ds else parseRightmoveListingId cs)"

definition placeholder_facts :: "string \<Rightarrow> json" where
  "placeholder_facts warning =
     JObj [(''ai_warnings'', JArr [JStr warning]), (''ai_confidence'', JObj [(''overall'', JNum 0)])]"

text \<open>The warning of the missing credential; its dash is an en dash, three bytes in
  UTF-8.\<close>

definition missing_key_warning :: string where
  "missing_key_warning =
     ''OPENAI_API_KEY missing '' @ [CHR 0xE2, CHR 0x80, CHR 0x93] @ '' skipping AI extraction''"

text \<open>\<open>callOpenAIWithWeb\<close>: without a credential, and on an answer that is not an object,
  it returns placeholder facts; the \<open>JSON.parse\<close> of the matched substring throws out of
  the \<open>catch\<close> block.\<close>

definition callOpenAIWithWeb :: "env \<Rightarrow> world \<Rightarrow> (exn + json) \<times> world" where
  "callOpenAIWithWeb e w =
     (if \<not> OPENAI_API_KEY e then
        (Inr (placeholder_facts missing_key_warning), w)
      else
        (let w1 = w\<lparr>ai_calls := Suc (ai_calls w)\<rparr> in
         case responses_create e of
           None \<Rightarrow> (Inl ModelError, w1)
         | Some output_text \<Rightarrow>
             (let outputText = (case output_text of None \<Rightarrow> [] | Some t \<Rightarrow> t);
                  parsed =
                    (case JSON_parse e outputText of
                       Some v \<Rightarrow> Inr v
                     | None \<Rightarrow>
                         (case match_braces outputText of
                            None \<Rightarrow> Inr JNull
                          | Some m \<Rightarrow>
                              (case JSON_parse e m of Some v \<Rightarrow> Inr v | None \<Rightarrow> Inl SyntaxError)))
              in case parsed of
                   Inl err \<Rightarrow> (Inl err, w1)
                 | Inr v \<Rightarrow>
                     if \<not> truthy v \<or> \<not> is_object v
                     then (Inr (placeholder_facts ''AI returned non-JSON or empty output''), w1)
                     else (Inr v, w1))))"

definition enforceMaxLinks :: "world \<Rightarrow> string \<Rightarrow> exn option" where
  "enforceMaxLinks w userId =
     (let c = length (filter (\<lambda>r. s_user_id r = userId) (property_sessions w)) in
      if c \<ge> 100 then Some (MAX_LINKS_REACHED 100) else None)"

text \<open>The insert of a session row; the store refuses an id it already has.\<close>

definition insert_session :: "env \<Rightarrow> world \<Rightarrow> string \<Rightarrow> string \<Rightarrow> string option \<Rightarrow> (exn + session_row) \<times> world" where
  "insert_session e w userId rightmoveUrl listingId =
     (let r = \<lparr>s_id = new_session_id e, s_user_id = userId, rightmove_url = rightmoveUrl,
                rightmove_listing_id = listingId, status = CREATED, last_extracted_at = None\<rparr>
      in if new_session_id e \<in> set (map s_id (property_sessions w))
         then (Inl (StoreError ''23505''), w)
         else (Inr r, w\<lparr>property_sessions := property_sessions w @ [r]\<rparr>))"

text \<open>\<open>upsertPropertySession\<close>: the lookup drops the error of \<open>maybeSingle\<close>, so several
  rows read as none.\<close>

definition upsertPropertySession ::
  "env \<Rightarrow> world \<Rightarrow> string \<Rightarrow> string \<Rightarrow> string option \<Rightarrow> (exn + session_row) \<times> world" where
  "upsertPropertySession e w userId rightmoveUrl listingId =
     (let rows =
            (case listingId of
               Some lid \<Rightarrow>
                 filter (\<lambda>r. s_user_id r = userId \<and> rightmove_listing_id r = Some lid)
                   (property_sessions w)
             | None \<Rightarrow>
                 filter (\<lambda>r. s_user_id r = userId \<and> rightmove_url r = rightmoveUrl)
                   (property_sessions w))
      in case maybeSingle rows of
           Inr (Some existing) \<Rightarrow> (Inr existing, w)
         | _ \<Rightarrow>
             (case enforceMaxLinks w userId of
                Some err \<Rightarrow> (Inl err, w)
              | None \<Rightarrow> insert_session e w userId rightmoveUrl listingId))"

definition factsRow :: "string \<Rightarrow> json \<Rightarrow> json" where
  "factsRow propertySessionId facts = JObj
     [(''property_session_id'', JStr propertySessionId),
      (''price'', or_null (js_get facts ''price'')),
      (''bedrooms'', or_null (js_get facts ''bedrooms'')),
      (''bathrooms'', or_null (js_get facts ''bathrooms'')),
      (''property_type'', or_null (js_get facts ''property_type'')),
      (''tenure'', or_null (js_get facts ''tenure'')),
      (''lease_years_remaining'', or_null (js_get facts ''lease_years_remaining'')),
      (''postcode'', or_null (js_get facts ''postcode'')),
      (''address'', or_null (js_get facts ''address'')),
      (''description'', or_null (js_get facts ''description'')),
      (''estate_agent'', or_null (js_get facts ''estate_agent'')),
      (''ai_confidence'', or_null (js_get facts ''ai_confidence'')),
      (''ai_warnings'', or_null (js_get facts ''ai_warnings''))]"

definition writeFactsRaw :: "world \<Rightarrow> string \<Rightarrow> json \<Rightarrow> world" where
  "writeFactsRaw w propertySessionId facts =
     w\<lparr>listing_facts_raw :=
         AList.update propertySessionId (factsRow propertySessionId facts) (listing_facts_raw w)\<rparr>"

record extract_request =
  ex_token :: "string option"
  ex_rightmove_url :: "json option"
  ex_stage :: "json option"

definition stage_ok :: "string \<Rightarrow> string \<Rightarrow> (string \<times> json) list \<Rightarrow> json" where
  "stage_ok stg userId extra =
     JObj ([(''ok'', JBool True), (''stage'', JStr stg), (''user_id'', JStr userId)] @ extra)"

definition listing_json :: "string option \<Rightarrow> json" where
  "listing_json listingId = (case listingId of None \<Rightarrow> JNull | Some l \<Rightarrow> JStr l)"

text \<open>The \<open>catch\<close> of the extract handler: the message, and \<open>e?.stack || null\<close>.\<close>

definition caught_extract :: "env \<Rightarrow> exn \<Rightarrow> response" where
  "caught_extract e err =
     Response 500
       (JObj [(''error'', JStr (message err)),
              (''stack'', (case stack_of e err of
                             None \<Rightarrow> JNull
                           | Some st \<Rightarrow> if st = [] then JNull else JStr st))])"

text \<open>The handler.  \<open>stage || "full"\<close> takes any truthy value of the body's \<open>stage\<close>; a
  value that names none of the early exits runs the whole pipeline.\<close>

definition extract_POST :: "env \<Rightarrow> world \<Rightarrow> extract_request \<Rightarrow> response \<times> world" where
  "extract_POST e w req =
     (case ex_token req of
        None \<Rightarrow> (Response 401 (error_body ''Missing Authorization: Bearer <token>''), w)
      | Some token \<Rightarrow>
     (let runStage = (case ex_stage req of
                        None \<Rightarrow> JStr ''full''
                      | Some s \<Rightarrow> if truthy s then s else JStr ''full'') in
      case getUser e token of
        None \<Rightarrow>
          (Response 401
             (JObj ((''error'', JStr ''Invalid JWT'') #
                    (case userErr_message e token of
                       None \<Rightarrow> []
                     | Some m \<Rightarrow> [(''details'', JStr m)]))),
           w)
      | Some userId \<Rightarrow>
          if runStage = JStr ''auth'' then (Response 200 (stage_ok ''auth'' userId []), w)
          else
     (case checkAndConsumeQuota e w userId Extract of
        (Inl err, w1) \<Rightarrow> (caught_extract e err, w1)
      | (Inr q, w1) \<Rightarrow>
          if \<not> ok q then
            (Response 402
               (JObj [(''ok'', JBool False), (''stage'', JStr ''quota''), (''error'', JStr ''Quota exceeded''),
                      (''used'', JNum (used q)), (''limit'', JNum (limit q))]),
             w1)
          else if runStage = JStr ''quota'' then
            (Response 200
               (stage_ok ''quota'' userId
                  [(''quota'', JObj [(''ok'', JBool True), (''used'', JNum (used q)),
                                     (''limit'', JNum (limit q))])]),
             w1)
          else
     (case ex_rightmove_url req of
        Some (JStr url) \<Rightarrow>
          if url = [] then (Response 400 (error_body ''Missing rightmove_url in body''), w1)
          else
            (let listingId = parseRightmoveListingId url in
             case fetchRightmoveHtml e url of
               None \<Rightarrow> (caught_extract e FetchError, w1)
             | Some html \<Rightarrow>
                 (let snippets = JArr (map JStr (extractSnippets e html)) in
                  if runStage = JStr ''fetch'' then
                    (Response 200
                       (stage_ok ''fetch'' userId
                          [(''listing_id'', listing_json listingId), (''snippets'', snippets)]),
                     w1)
                  else
            (case callOpenAIWithWeb e w1 of
               (Inl err, w2) \<Rightarrow> (caught_extract e err, w2)
             | (Inr facts, w2) \<Rightarrow>
                 if runStage = JStr ''openai'' then
                   (Response 200
                      (stage_ok ''openai'' userId
                         [(''listing_id'', listing_json listingId), (''snippets'', snippets),
                          (''facts'', facts)]),
                    w2)
                 else
            (case upsertPropertySession e w2 userId url listingId of
               (Inl (MAX_LINKS_REACHED n), w3) \<Rightarrow>
                 (Response 403
                    (JObj [(''ok'', JBool False), (''error'', JStr ''MAX_LINKS_REACHED''),
                           (''limit'', JNum (int n))]),
                  w3)
             | (Inl err, w3) \<Rightarrow> (caught_extract e err, w3)
             | (Inr session, w3) \<Rightarrow>
                 (let w4 = updateSessionStatus e w3 (s_id session) FETCHED_HTML;
                      w5 = updateSessionStatus e w4 (s_id session) AI_PARSED
                  in case upsert_facts_raw e (factsRow (s_id session) facts) of
                       Some err \<Rightarrow> (caught_extract e err, w5)
                     | None \<Rightarrow>
                         (let w6 = writeFactsRaw w5 (s_id session) facts;
                              w7 = updateSessionStatus e w6 (s_id session) NEEDS_CONFIRMATION
                          in (Response 200
                                (stage_ok ''full'' userId
                                   [(''session_id'', JStr (s_id session)),
                                    (''listing_id'', listing_json listingId),
                                    (''snippets'', snippets), (''facts'', facts)]),
                              w7)))))))
      | _ \<Rightarrow> (Response 400 (error_body ''Missing rightmove_url in body''), w1)))))"

section \<open>Preferences: \<open>GET /api/preferences\<close>\<close>

definition defaultPreferences :: "string \<Rightarrow> json" where
  "defaultPreferences userId = JObj
     [(''user_id'', JStr userId),
      (''budget_max'', JNum 450000),
      (''budget_flex'', JNum 0),
      (''notes_budget'', JNull),
      (''min_bedrooms'', JNum 2),
      (''min_bathrooms'', JNull),
      (''property_type_rank'',
         JArr [JStr ''detached'', JStr ''semi_detached'', JStr ''terraced'', JStr ''flat'',
               JStr ''maisonette'', JStr ''bungalow'', JStr ''studio'']),
      (''property_type_reject_below_index'', JNum 0),
      (''notes_property_type'', JNull),
      (''tenure_rank'',
         JArr [JStr ''freehold'', JStr ''share_of_freehold'', JStr ''leasehold'', JStr ''commonhold'',
               JStr ''other'']),
      (''tenure_reject_below_index'', JNum 0),
      (''min_lease_years'', JNull),
      (''notes_tenure'', JNull),
      (''work_postcode'', JStr []),
      (''transport_mode'', JStr ''public_transport''),
      (''max_commute_minutes_total'', JNull),
      (''max_walk_minutes'', JNull),
      (''car_owner'', JBool False),
      (''bike_owner'', JBool False),
      (''transport_convenience_weight'', JNum 5),
      (''notes_commute'', JNull),
      (''religion_required'', JBool False),
      (''school_priority'', JBool False),
      (''gym_priority'', JBool False),
      (''has_children'', JBool False),
      (''quiet_area_priority'', JBool False),
      (''green_space_priority'', JBool False),
      (''safety_weight'', JNum 5),
      (''cleanliness_weight'', JNum 5),
      (''notes_lifestyle'', JNull),
      (''max_service_charge'', JNull),
      (''max_ground_rent'', JNull),
      (''notes_running_costs'', JNull),
      (''parking_required'', JStr ''not_required''),
      (''parking_type_rank'',
         JArr [JStr ''driveway'', JStr ''garage'', JStr ''allocated'', JStr ''permit'', JStr ''street'',
               JStr ''none'']),
      (''parking_reject_below_index'', JNum 0),
      (''storage_required'', JBool False),
      (''notes_parking'', JNull),
      (''condition_tolerance'', JStr ''light_cosmetic''),
      (''notes_condition'', JNull),
      (''affordability_weight'', JNum 5),
      (''notes_value'', JNull)]"

definition preferences_GET :: "env \<Rightarrow> world \<Rightarrow> string option \<Rightarrow> response \<times> world" where
  "preferences_GET e w tok =
     (case tok of
        None \<Rightarrow> (Response 401 (error_body ''Missing bearer token''), w)
      | Some token \<Rightarrow>
     (case getUser e token of
        None \<Rightarrow> (Response 401 (error_body ''Invalid JWT''), w)
      | Some userId \<Rightarrow>
     (case map_of (preferences w) userId of
        None \<Rightarrow>
          (let seed = defaultPreferences userId in
           (Response 200 (JObj [(''ok'', JBool True), (''preferences'', seed)]),
            w\<lparr>preferences := preferences w @ [(userId, seed)]\<rparr>))
      | Some data \<Rightarrow> (Response 200 (JObj [(''ok'', JBool True), (''preferences'', data)]), w))))"

section \<open>Example states\<close>


text \<open>Preferences a user has completed: the defaults with a work postcode.\<close>

definition complete_preferences :: "string \<Rightarrow> json" where
  "complete_preferences userId =
     (case defaultPreferences userId of
        JObj kvs \<Rightarrow> JObj (AList.update ''work_postcode'' (JStr ''EC1A 1BB'') kvs)
      | v \<Rightarrow> v)"

text \<open>Two answers of the model: one with every required field at \<open>high\<close> or
  \<open>medium\<close> in \<open>required_confidence\<close>, one that only leaves \<open>safety_score\<close> at
  \<open>low\<close>.\<close>

definition answer_all_high :: string where
  \<open>answer_all_high =
     ''{"stats_version":1,"fields":{},"required_confidence":{"commute_total_minutes":"high","commute_walk_minutes":"high","commute_mode":"high","nearest_station_distance_m":"medium","nearest_station_name":"high","supermarket_distance_m":"high","supermarket_name":"high","green_space_distance_m":"medium","green_space_name":"high","safety_score":"high"}}''\<close>

definition parsed_all_high :: json where
  "parsed_all_high = JObj
     [(''stats_version'', JNum 1),
      (''fields'', JObj []),
      (''required_confidence'', JObj
         [(''commute_total_minutes'', JStr ''high''), (''commute_walk_minutes'', JStr ''high''),
          (''commute_mode'', JStr ''high''), (''nearest_station_distance_m'', JStr ''medium''),
          (''nearest_station_name'', JStr ''high''), (''supermarket_distance_m'', JStr ''high''),
          (''supermarket_name'', JStr ''high''), (''green_space_distance_m'', JStr ''medium''),
          (''green_space_name'', JStr ''high''), (''safety_score'', JStr ''high'')])]"

definition answer_safety_low :: string where
  \<open>answer_safety_low =
     ''{"stats_version":1,"fields":{"safety_score":{"value":3,"confidence":"low"}},"required_confidence":{"commute_total_minutes":"high","commute_walk_minutes":"high","commute_mode":"high","nearest_station_distance_m":"medium","nearest_station_name":"high","supermarket_distance_m":"high","supermarket_name":"high","green_space_distance_m":"medium","green_space_name":"high","safety_score":"high"}}''\<close>

definition parsed_safety_low :: json where
  "parsed_safety_low = JObj
     [(''stats_version'', JNum 1),
      (''fields'', JObj [(''safety_score'', JObj [(''value'', JNum 3), (''confidence'', JStr ''low'')])]),
      (''required_confidence'', JObj
         [(''commute_total_minutes'', JStr ''high''), (''commute_walk_minutes'', JStr ''high''),
          (''commute_mode'', JStr ''high''), (''nearest_station_distance_m'', JStr ''medium''),
          (''nearest_station_name'', JStr ''high''), (''supermarket_distance_m'', JStr ''high''),
          (''supermarket_name'', JStr ''high''), (''green_space_distance_m'', JStr ''medium''),
          (''green_space_name'', JStr ''high''), (''safety_score'', JStr ''high'')])]"

text \<open>An environment whose model answers \<open>answer_all_high\<close>; its \<open>JSON.parse\<close> knows
  the texts of the examples.\<close>

definition demo_parse :: "string \<Rightarrow> json option" where
  \<open>demo_parse s =
     (if s = answer_all_high then Some parsed_all_high
      else if s = answer_safety_low then Some parsed_safety_low
      else if s = ''{}'' then Some (JObj [])
      else if s = ''{"price":450000}'' then Some (JObj [(''price'', JNum 450000)])
      else None)\<close>

definition demo_env :: env where
  "demo_env =
     \<lparr>getUser = (\<lambda>t. if t = ''token-alice'' then Some ''alice''
                       else if t = ''token-bob'' then Some ''bob'' else None),
      OPENAI_API_KEY = True,
      fetchRightmoveHtml = (\<lambda>u. Some ''<html></html>''),
      responses_create = Some (Some answer_all_high),
      JSON_parse = demo_parse,
      StringToNumber = (\<lambda>s. JNull),
      nowIso = ''2025-01-01T00:00:00.000Z'',
      new_session_id = ''s-new'',
      usage_defaults = \<lparr>extract_used = 0, extract_limit = 5, stats_used = 0, stats_limit = 5,
                         evaluate_used = 0, evaluate_limit = 5\<rparr>,
      upsert_stats_confirmed = (\<lambda>row. None),
      upsert_facts_confirmed = (\<lambda>row. None),
      upsert_facts_raw = (\<lambda>row. None),
      upsert_evaluation_raw = (\<lambda>row. None),
      userErr_message = (\<lambda>t. None),
      stack_of = (\<lambda>err. None),
      extractSnippets = (\<lambda>html. [])\<rparr>"

text \<open>A user \<open>alice\<close> with one session, its facts confirmed and her preferences complete,
  her extract and evaluate quota used up and stats quota left.\<close>

definition demo_world :: world where
  "demo_world =
     \<lparr>property_sessions =
        [\<lparr>s_id = ''s1'', s_user_id = ''alice'',
          rightmove_url = ''https://www.rightmove.co.uk/properties/170645465'',
          rightmove_listing_id = Some ''170645465'', status = CONFIRMED,
          last_extracted_at = None\<rparr>],
      usage_counters =
        [(''alice'', \<lparr>extract_used = 5, extract_limit = 5, stats_used = 0, stats_limit = 3,
                       evaluate_used = 3, evaluate_limit = 3\<rparr>)],
      usage_ledger = [],
      listing_facts_raw = [],
      listing_facts_confirmed = [(''s1'', JObj [(''property_session_id'', JStr ''s1''), (''price'', JNum 450000)])],
      listing_stats_raw = [],
      listing_stats_confirmed = [],
      listing_evaluation_raw = [],
      preferences = [(''alice'', complete_preferences ''alice'')],
      ai_calls = 0\<rparr>"

definition demo_stats_request :: stats_request where
  "demo_stats_request =
     \<lparr>st_token = Some ''token-alice'', st_property_session_id = Some ''s1'', st_force_recalc = None\<rparr>"


text \<open>The session of the example waiting for the user's confirmation of its stats.\<close>

definition waiting_world :: world where
  "waiting_world = set_status demo_world ''s1'' STATS_NEEDS_CONFIRMATION"

text \<open>A draft with every core field present, three of them of another type than the
  handler's annotations name, and the same draft without \<open>safety_score\<close>.\<close>

definition draft_nine :: "(string \<times> json) list" where
  "draft_nine =
     [(''commute_total_minutes'', JStr ''soon''), (''commute_walk_minutes'', JBool True),
      (''commute_mode'', JNum 7), (''nearest_station_distance_m'', JNum 400),
      (''nearest_station_name'', JStr ''Farringdon''), (''supermarket_distance_m'', JNum 250),
      (''supermarket_name'', JStr ''Co-op''), (''green_space_distance_m'', JNum 600),
      (''green_space_name'', JStr ''Spa Fields'')]"

definition draft_ill_typed :: json where
  "draft_ill_typed = JObj (draft_nine @ [(''safety_score'', JNum 6)])"

definition confirm_request_of :: "json \<Rightarrow> confirm_request" where
  "confirm_request_of stats =
     \<lparr>cf_token = Some ''token-alice'', cf_property_session_id = Some (JStr ''s1''),
      cf_stats = Some stats\<rparr>"

text \<open>A value that is there: not \<open>undefined\<close>, not \<open>null\<close>, and not a string that is
  empty once trimmed.\<close>

definition present :: "json option \<Rightarrow> bool" where
  "present a =
     (case a of
        None \<Rightarrow> False
      | Some JNull \<Rightarrow> False
      | Some (JStr s) \<Rightarrow> trim s \<noteq> []
      | Some v \<Rightarrow> True)"

text \<open>A draft whose \<open>commute_mode\<close> is a single no-break space.\<close>

definition draft_blank_mode :: json where
  "draft_blank_mode = JObj
     [(''commute_total_minutes'', JNum 35), (''commute_walk_minutes'', JNum 10),
      (''commute_mode'', JStr [CHR 0xC2, CHR 0xA0]), (''nearest_station_distance_m'', JNum 400),
      (''nearest_station_name'', JStr ''Farringdon''), (''supermarket_distance_m'', JNum 250),
      (''supermarket_name'', JStr ''Co-op''), (''green_space_distance_m'', JNum 600),
      (''green_space_name'', JStr ''Spa Fields''), (''safety_score'', JNum 6)]"

text \<open>An environment whose store refuses every row offered to
  \<open>listing_stats_confirmed\<close>.\<close>

definition strict_store_env :: env where
  "strict_store_env = demo_env\<lparr>upsert_stats_confirmed := (\<lambda>row. Some (StoreError ''22P02''))\<rparr>"


text \<open>The example session with its stats ready but no confirmed stats row, and the example
  with the stats quota used up.\<close>

definition ready_world :: world where
  "ready_world = set_status demo_world ''s1'' STATS_READY"


text \<open>The example session with its facts and stats confirmed, evaluate quota left, and the
  preferences still the defaults of a first \<open>GET /api/preferences\<close>.\<close>

definition incomplete_world :: world where
  "incomplete_world =
     ready_world\<lparr>listing_stats_confirmed := [(''s1'', JObj [(''property_session_id'', JStr ''s1'')])],
                 preferences := [(''alice'', defaultPreferences ''alice'')],
                 usage_counters :=
                   [(''alice'', \<lparr>extract_used = 5, extract_limit = 5, stats_used = 0, stats_limit = 3,
                                  evaluate_used = 0, evaluate_limit = 3\<rparr>)]\<rparr>"

definition demo_evaluate_request :: evaluate_request where
  "demo_evaluate_request = \<lparr>ev_token = Some ''token-alice'', ev_property_session_id = Some ''s1''\<rparr>"

text \<open>The example with extract quota left, and an environment without the API
  credential.\<close>

definition fresh_world :: world where
  "fresh_world =
     demo_world\<lparr>usage_counters :=
       [(''alice'', \<lparr>extract_used = 0, extract_limit = 5, stats_used = 0, stats_limit = 3,
                      evaluate_used = 0, evaluate_limit = 3\<rparr>)]\<rparr>"

definition no_key_env :: env where
  "no_key_env = demo_env\<lparr>OPENAI_API_KEY := False\<rparr>"

definition demo_extract_request :: extract_request where
  "demo_extract_request =
     \<lparr>ex_token = Some ''token-alice'',
      ex_rightmove_url = Some (JStr ''https://www.rightmove.co.uk/properties/170645465''),
      ex_stage = None\<rparr>"

text \<open>The store once the guard has won and one unit of quota is spent.\<close>

definition charged :: "env \<Rightarrow> world \<Rightarrow> string \<Rightarrow> string \<Rightarrow> LifecycleStage list \<Rightarrow> LifecycleStage \<Rightarrow> action \<Rightarrow> world" where
  "charged e w uid sid frm target a =
     snd (checkAndConsumeQuota e (snd (setStatusGuarded w sid uid frm target)) uid a)"

text \<open>A request that runs the whole pipeline: no stage, or a stage that names none of
  the early exits.\<close>

definition runs_full :: "extract_request \<Rightarrow> bool" where
  "runs_full req =
     (case ex_stage req of
        None \<Rightarrow> True
      | Some s \<Rightarrow>
          \<not> truthy s
          \<or> s \<noteq> JStr ''auth'' \<and> s \<noteq> JStr ''quota'' \<and> s \<noteq> JStr ''fetch''
            \<and> s \<noteq> JStr ''openai'')"

text \<open>The store after one unit of the action's quota is spent.\<close>

definition spend :: "env \<Rightarrow> world \<Rightarrow> string \<Rightarrow> action \<Rightarrow> world" where
  "spend e w uid a = snd (checkAndConsumeQuota e w uid a)"

text \<open>The three status writes of the full stage, on the rows.\<close>

definition touch :: "env \<Rightarrow> string \<Rightarrow> session_row \<Rightarrow> session_row" where
  "touch e sid r =
     (if s_id r = sid then r\<lparr>status := NEEDS_CONFIRMATION, last_extracted_at := Some (nowIso e)\<rparr>
      else r)"

text \<open>A user with a hundred sessions, listings 1000 to 1099, and extract quota left; an
  environment whose model answers with facts.\<close>

definition crowded_world :: world where
  "crowded_world =
     fresh_world\<lparr>property_sessions :=
       map (\<lambda>n. \<lparr>s_id = ''c'' @ nat_digits n, s_user_id = ''alice'',
                   rightmove_url = ''https://www.rightmove.co.uk/properties/'' @ nat_digits (1000 + n),
                   rightmove_listing_id = Some (nat_digits (1000 + n)),
                   status = NEEDS_CONFIRMATION, last_extracted_at = None\<rparr>)
         [0..<100]\<rparr>"

definition extract_env :: env where
  \<open>extract_env = demo_env\<lparr>responses_create := Some (Some ''{"price":450000}'')\<rparr>\<close>


text \<open>An environment whose model answers in prose.\<close>

definition prose_env :: env where
  "prose_env = demo_env\<lparr>responses_create := Some (Some ''I could not open the page.'')\<rparr>"

text \<open>The example before its user has any preferences, after her first
  \<open>GET /api/preferences\<close>, and after that with the listing's facts not confirmed.\<close>

definition new_user_world :: world where
  "new_user_world = demo_world\<lparr>preferences := []\<rparr>"

definition first_get_world :: world where
  "first_get_world = snd (preferences_GET demo_env new_user_world (Some ''token-alice''))"

definition unconfirmed_world :: world where
  "unconfirmed_world = first_get_world\<lparr>listing_facts_confirmed := []\<rparr>"

text \<open>An environment whose store refuses the rows that extract and evaluate offer it.\<close>

definition refusing_env :: env where
  "refusing_env =
     demo_env\<lparr>upsert_facts_raw := (\<lambda>row. Some (StoreError ''23502'')),
              upsert_evaluation_raw := (\<lambda>row. Some (StoreError ''23502''))\<rparr>"

text \<open>The same refusing store without the API credential.\<close>

definition refusing_no_key_env :: env where
  "refusing_no_key_env = refusing_env\<lparr>OPENAI_API_KEY := False\<rparr>"

section \<open>Quota: check and consume\<close>

lemma ensure_row: "map_of (usage_counters (ensureUsageRow e w u)) u = Some (counters_row e w u)"
  by (simp add: ensureUsageRow_def counters_row_def map_add_def split: option.splits)

lemma ensure_other: "counters_row e (ensureUsageRow e w u) v = counters_row e w v"
  by (auto simp add: ensureUsageRow_def counters_row_def map_add_def split: option.splits if_splits)

lemma ensure_present: "map_of (usage_counters w) u = Some c \<Longrightarrow> ensureUsageRow e w u = w"
  by (simp add: ensureUsageRow_def)

lemma ensure_fields [simp]:
  "usage_ledger (ensureUsageRow e w u) = usage_ledger w"
  "property_sessions (ensureUsageRow e w u) = property_sessions w"
  "listing_facts_raw (ensureUsageRow e w u) = listing_facts_raw w"
  "listing_facts_confirmed (ensureUsageRow e w u) = listing_facts_confirmed w"
  "listing_stats_raw (ensureUsageRow e w u) = listing_stats_raw w"
  "listing_stats_confirmed (ensureUsageRow e w u) = listing_stats_confirmed w"
  "listing_evaluation_raw (ensureUsageRow e w u) = listing_evaluation_raw w"
  "preferences (ensureUsageRow e w u) = preferences w"
  "ai_calls (ensureUsageRow e w u) = ai_calls w"
  by (simp_all add: ensureUsageRow_def split: option.splits)

lemma used_of_set_used [simp]: "used_of a (set_used a n c) = n"
  by (cases a) simp_all

lemma limit_of_set_used [simp]: "limit_of a (set_used a n c) = limit_of a c"
  by (cases a) simp_all

lemma quota_denied:
  "limit_of a (counters_row e w u) \<le> used_of a (counters_row e w u) \<Longrightarrow>
   checkAndConsumeQuota e w u a =
     (Inr \<lparr>ok = False, used = used_of a (counters_row e w u), limit = limit_of a (counters_row e w u)\<rparr>,
      ensureUsageRow e w u)"
  by (simp add: checkAndConsumeQuota_def Let_def ensure_row)

lemma quota_granted:
  "used_of a (counters_row e w u) < limit_of a (counters_row e w u) \<Longrightarrow>
   checkAndConsumeQuota e w u a =
     (Inr \<lparr>ok = True, used = used_of a (counters_row e w u) + 1,
           limit = limit_of a (counters_row e w u)\<rparr>,
      (ensureUsageRow e w u)
        \<lparr>usage_counters :=
           AList.update u (set_used a (used_of a (counters_row e w u) + 1) (counters_row e w u))
             (usage_counters (ensureUsageRow e w u)),
         usage_ledger := usage_ledger w @ [usage_entry u a]\<rparr>)"
  by (simp add: checkAndConsumeQuota_def Let_def ensure_row)

text \<open>
  C1.  \<open>checkAndConsumeQuota\<close> reads \<open>(used, limit)\<close> of the action from the user's
  counters row (\<open>c\<close>, the row found once \<open>ensureUsageRow\<close> has run).  When
  \<open>used \<ge> limit\<close> it returns \<open>{ok: false, used, limit}\<close> and changes nothing: the store
  is the one \<open>ensureUsageRow\<close> leaves, which is the store itself when the user had a row,
  every user's counters read as before, the ledger and the sessions are as they were.  When
  \<open>used < limit\<close> it returns \<open>{ok: true, used: used + 1, limit}\<close>, the counter reads
  \<open>used + 1\<close> under the same limit, and the ledger has grown by exactly one entry with
  \<open>action_type\<close> the action, \<open>delta = -1\<close>, \<open>reason = "usage"\<close>,
  \<open>direction = "debit"\<close> and \<open>amount = 1\<close>.
\<close>

theorem checkAndConsumeQuota_contract:
  assumes run: "checkAndConsumeQuota e w userId a = (r, w')"
    and c: "c = counters_row e w userId"
  shows "(used_of a c \<ge> limit_of a c \<longrightarrow>
       r = Inr \<lparr>ok = False, used = used_of a c, limit = limit_of a c\<rparr>
       \<and> w' = ensureUsageRow e w userId
       \<and> (map_of (usage_counters w) userId \<noteq> None \<longrightarrow> w' = w)
       \<and> (\<forall>u. counters_row e w' u = counters_row e w u)
       \<and> usage_ledger w' = usage_ledger w
       \<and> property_sessions w' = property_sessions w) \<and>
    (used_of a c < limit_of a c \<longrightarrow>
       r = Inr \<lparr>ok = True, used = used_of a c + 1, limit = limit_of a c\<rparr>
       \<and> used_of a (counters_row e w' userId) = used_of a c + 1
       \<and> limit_of a (counters_row e w' userId) = limit_of a c
       \<and> usage_ledger w' = usage_ledger w @
            [\<lparr>l_user_id = userId, action_type = action_name a, delta = - 1, reason = ''usage'',
              direction = ''debit'', l_action = action_name a, l_note = action_note a,
              amount = 1\<rparr>]
       \<and> property_sessions w' = property_sessions w)"
proof (cases "used_of a c \<ge> limit_of a c")
  case True
  with run c have "r = Inr \<lparr>ok = False, used = used_of a c, limit = limit_of a c\<rparr>"
    and w': "w' = ensureUsageRow e w userId"
    by (simp_all add: quota_denied)
  moreover have "map_of (usage_counters w) userId \<noteq> None \<longrightarrow> w' = w"
    unfolding w' by (auto simp: ensure_present)
  moreover have "\<forall>u. counters_row e w' u = counters_row e w u"
    unfolding w' by (simp add: ensure_other)
  ultimately show ?thesis using True by (simp add: w')
next
  case False
  then have lt: "used_of a (counters_row e w userId) < limit_of a (counters_row e w userId)"
    using c by simp
  from run have r: "r = Inr \<lparr>ok = True, used = used_of a c + 1, limit = limit_of a c\<rparr>"
    and w': "w' = (ensureUsageRow e w userId)
        \<lparr>usage_counters :=
           AList.update userId (set_used a (used_of a c + 1) c)
             (usage_counters (ensureUsageRow e w userId)),
         usage_ledger := usage_ledger w @ [usage_entry userId a]\<rparr>"
    unfolding quota_granted [OF lt] c by simp_all
  have "counters_row e w' userId = set_used a (used_of a c + 1) c"
    unfolding w' by (simp add: counters_row_def update_conv')
  then show ?thesis using False r
    by (simp add: w' usage_entry_def)
qed

lemma demo_c: "counters_row demo_env demo_world ''alice''
      = \<lparr>extract_used = 5, extract_limit = 5, stats_used = 0, stats_limit = 3,
         evaluate_used = 3, evaluate_limit = 3\<rparr>"
    by (simp add: counters_row_def demo_world_def)

lemma demo_p: "map_of (usage_counters demo_world) ''alice'' \<noteq> None"
    by (simp add: demo_world_def)

theorem checkAndConsumeQuota_contract_witness:
  "checkAndConsumeQuota demo_env demo_world ''alice'' Extract
     = (Inr \<lparr>ok = False, used = 5, limit = 5\<rparr>, demo_world)
   \<and> fst (checkAndConsumeQuota demo_env demo_world ''alice'' Stats)
     = Inr \<lparr>ok = True, used = 1, limit = 3\<rparr>
   \<and> usage_ledger (snd (checkAndConsumeQuota demo_env demo_world ''alice'' Stats))
     = [\<lparr>l_user_id = ''alice'', action_type = ''stats'', delta = - 1, reason = ''usage'',
         direction = ''debit'', l_action = ''stats'', l_note = ''Stats invoked via /api/stats'',
         amount = 1\<rparr>]"
proof -
  obtain r1 w1 where a: "checkAndConsumeQuota demo_env demo_world ''alice'' Extract = (r1, w1)"
    by (cases "checkAndConsumeQuota demo_env demo_world ''alice'' Extract")
  obtain r2 w2 where b: "checkAndConsumeQuota demo_env demo_world ''alice'' Stats = (r2, w2)"
    by (cases "checkAndConsumeQuota demo_env demo_world ''alice'' Stats")
  have l: "usage_ledger demo_world = []"
    by (simp add: demo_world_def)
  from checkAndConsumeQuota_contract [OF a demo_c [symmetric]] demo_p
  have 1: "r1 = Inr \<lparr>ok = False, used = 5, limit = 5\<rparr> \<and> w1 = demo_world"
    by auto
  from checkAndConsumeQuota_contract [OF b demo_c [symmetric]]
  have 2: "r2 = Inr \<lparr>ok = True, used = 1, limit = 3\<rparr> \<and> usage_ledger w2 =
     [\<lparr>l_user_id = ''alice'', action_type = ''stats'', delta = - 1, reason = ''usage'',
         direction = ''debit'', l_action = ''stats'', l_note = ''Stats invoked via /api/stats'',
         amount = 1\<rparr>]"
    by (simp add: l)
  from 1 2 a b show ?thesis by simp
qed


section \<open>The guarded transition\<close>

lemma pk_matches_le1:
  "distinct (map s_id rows) \<Longrightarrow> length (filter (\<lambda>r. s_id r = sid \<and> P r) rows) \<le> 1"
proof (induction rows)
  case Nil
  then show ?case by simp
next
  case (Cons r rows)
  have "s_id r = sid \<Longrightarrow> filter (\<lambda>r. s_id r = sid \<and> P r) rows = []"
    using Cons.prems by (force simp: filter_empty_conv image_iff)
  with Cons show ?case by auto
qed

lemma guard_matches_le1:
  "distinct (map s_id (property_sessions w)) \<Longrightarrow>
   length (filter (guard_matches sid uid frm) (property_sessions w)) \<le> 1"
  using pk_matches_le1 [of "property_sessions w" sid "\<lambda>r. s_user_id r = uid \<and> status r \<in> set frm"]
  by (simp add: guard_matches_def [abs_def])

lemma maybeSingle_cases:
  "maybeSingle rs = (if rs = [] then Inr None else if length rs = 1 then Inr (Some (hd rs))
     else Inl (StoreError ''PGRST116''))"
  by (cases rs rule: maybeSingle.cases) simp_all


lemma guard_true_iff:
  "fst (setStatusGuarded w sid uid frm target) = Inr True \<longleftrightarrow>
   length (filter (guard_matches sid uid frm) (property_sessions w)) = 1"
  by (auto simp: setStatusGuarded_def maybeSingle_cases split: if_splits)

lemma guard_false_iff:
  "fst (setStatusGuarded w sid uid frm target) = Inr False \<longleftrightarrow>
   filter (guard_matches sid uid frm) (property_sessions w) = []"
  by (auto simp: setStatusGuarded_def maybeSingle_cases split: if_splits)

lemma guard_true_world:
  "fst (setStatusGuarded w sid uid frm target) = Inr True \<Longrightarrow>
   snd (setStatusGuarded w sid uid frm target) =
     w\<lparr>property_sessions :=
         map (\<lambda>r. if guard_matches sid uid frm r then r\<lparr>status := target\<rparr> else r)
           (property_sessions w)\<rparr>"
  by (auto simp: setStatusGuarded_def maybeSingle_cases split: if_splits)

lemma guard_not_true_world:
  "fst (setStatusGuarded w sid uid frm target) \<noteq> Inr True \<Longrightarrow>
   snd (setStatusGuarded w sid uid frm target) = w"
  by (auto simp: setStatusGuarded_def maybeSingle_cases split: if_splits)

lemma guard_pk_bool:
  "distinct (map s_id (property_sessions w)) \<Longrightarrow>
   fst (setStatusGuarded w sid uid frm target) \<noteq> Inr True \<Longrightarrow>
   fst (setStatusGuarded w sid uid frm target) = Inr False"
  using guard_matches_le1 [of w sid uid frm]
  by (cases "filter (guard_matches sid uid frm) (property_sessions w)")
     (auto simp: setStatusGuarded_def maybeSingle_cases split: if_splits)

lemma stats_guard_false:
  "fst (setStatusGuarded w sid uid (allowedFrom force) STATS_RUNNING) = Inr False \<Longrightarrow>
   stats_from_guard e w uid sid cur force = (Response 409 (conflict_body cur), w)"
  by (auto simp: stats_from_guard_def setStatusGuarded_def maybeSingle_cases split: if_splits)

lemma evaluate_guard_false:
  "fst (setStatusGuarded w sid uid evalFrom EVAL_RUNNING) = Inr False \<Longrightarrow>
   evaluate_from_guard e w uid sid cur = (Response 409 (conflict_body cur), w)"
  by (auto simp: evaluate_from_guard_def setStatusGuarded_def maybeSingle_cases split: if_splits)


text \<open>
  C3.  With \<open>id\<close> the primary key of \<open>property_sessions\<close>, \<open>setStatusGuarded\<close>
  returns true iff exactly one row has the session id, the owner and a status in the from-set;
  that row's status then becomes the target and nothing else changes.  In every other case it
  returns false and the store is as before.  The compute-stats and evaluate handlers answer a
  guard that did not succeed with 409 and leave the store as it was: no quota is consumed, no
  ledger row written and no request sent to the model.
\<close>

theorem setStatusGuarded_contract:
  assumes pk: "distinct (map s_id (property_sessions w))"
  shows "(fst (setStatusGuarded w sid uid frm target) = Inr True \<longleftrightarrow>
            length (filter (\<lambda>r. s_id r = sid \<and> s_user_id r = uid \<and> status r \<in> set frm)
                      (property_sessions w)) = 1)
       \<and> (fst (setStatusGuarded w sid uid frm target) = Inr True \<longrightarrow>
            snd (setStatusGuarded w sid uid frm target) =
              w\<lparr>property_sessions :=
                  map (\<lambda>r. if s_id r = sid \<and> s_user_id r = uid \<and> status r \<in> set frm
                           then r\<lparr>status := target\<rparr> else r)
                    (property_sessions w)\<rparr>)
       \<and> (fst (setStatusGuarded w sid uid frm target) \<noteq> Inr True \<longrightarrow>
            setStatusGuarded w sid uid frm target = (Inr False, w))
       \<and> (fst (setStatusGuarded w sid uid (allowedFrom force) STATS_RUNNING) \<noteq> Inr True \<longrightarrow>
            stats_from_guard e w uid sid cur force = (Response 409 (conflict_body cur), w))
       \<and> (fst (setStatusGuarded w sid uid evalFrom EVAL_RUNNING) \<noteq> Inr True \<longrightarrow>
            evaluate_from_guard e w uid sid cur = (Response 409 (conflict_body cur), w))"
proof -
  have a: "fst (setStatusGuarded w sid uid frm target) \<noteq> Inr True \<Longrightarrow>
        setStatusGuarded w sid uid frm target = (Inr False, w)" for frm target
    using guard_pk_bool [OF pk, of sid uid frm target] guard_not_true_world [of w sid uid frm target]
    by (simp add: prod_eq_iff)
  have b: "fst (setStatusGuarded w sid uid (allowedFrom force) STATS_RUNNING) \<noteq> Inr True \<Longrightarrow>
        stats_from_guard e w uid sid cur force = (Response 409 (conflict_body cur), w)"
    using a [of "allowedFrom force" STATS_RUNNING] stats_guard_false [of w sid uid force e cur]
    by simp
  have c: "fst (setStatusGuarded w sid uid evalFrom EVAL_RUNNING) \<noteq> Inr True \<Longrightarrow>
        evaluate_from_guard e w uid sid cur = (Response 409 (conflict_body cur), w)"
    using a [of evalFrom EVAL_RUNNING] evaluate_guard_false [of w sid uid e cur]
    by simp
  have d: "(fst (setStatusGuarded w sid uid frm target) = Inr True \<longleftrightarrow>
            length (filter (\<lambda>r. s_id r = sid \<and> s_user_id r = uid \<and> status r \<in> set frm)
                      (property_sessions w)) = 1)"
    using guard_true_iff [of w sid uid frm target] by (simp add: guard_matches_def [abs_def])
  have f: "fst (setStatusGuarded w sid uid frm target) = Inr True \<longrightarrow>
            snd (setStatusGuarded w sid uid frm target) =
              w\<lparr>property_sessions :=
                  map (\<lambda>r. if s_id r = sid \<and> s_user_id r = uid \<and> status r \<in> set frm
                           then r\<lparr>status := target\<rparr> else r)
                    (property_sessions w)\<rparr>"
    using guard_true_world [of w sid uid frm target] by (simp add: guard_matches_def [abs_def])
  from d f a [of frm target] b c show ?thesis by blast
qed

lemma demo_pk: "distinct (map s_id (property_sessions demo_world))"
  by (simp add: demo_world_def)

theorem setStatusGuarded_contract_witness:
  "distinct (map s_id (property_sessions demo_world))
   \<and> fst (setStatusGuarded demo_world ''s1'' ''alice'' (allowedFrom False) STATS_RUNNING) = Inr True
   \<and> map status (property_sessions
          (snd (setStatusGuarded demo_world ''s1'' ''alice'' (allowedFrom False) STATS_RUNNING)))
       = [STATS_RUNNING]
   \<and> setStatusGuarded demo_world ''s1'' ''alice'' evalFrom EVAL_RUNNING = (Inr False, demo_world)
   \<and> evaluate_from_guard demo_env demo_world ''alice'' ''s1'' CONFIRMED
       = (Response 409 (conflict_body CONFIRMED), demo_world)"
proof -
  have one: "length (filter (\<lambda>r. s_id r = ''s1'' \<and> s_user_id r = ''alice''
                 \<and> status r \<in> set (allowedFrom False)) (property_sessions demo_world)) = 1"
    by (simp add: demo_world_def allowedFrom_def)
  have none: "length (filter (\<lambda>r. s_id r = ''s1'' \<and> s_user_id r = ''alice''
                 \<and> status r \<in> set evalFrom) (property_sessions demo_world)) \<noteq> 1"
    by (simp add: demo_world_def evalFrom_def)
  from setStatusGuarded_contract [OF demo_pk, of "''s1''" "''alice''" "allowedFrom False" STATS_RUNNING] one
  have t: "fst (setStatusGuarded demo_world ''s1'' ''alice'' (allowedFrom False) STATS_RUNNING) = Inr True"
    and w: "snd (setStatusGuarded demo_world ''s1'' ''alice'' (allowedFrom False) STATS_RUNNING) =
       demo_world\<lparr>property_sessions :=
                  map (\<lambda>r. if s_id r = ''s1'' \<and> s_user_id r = ''alice''
                                \<and> status r \<in> set (allowedFrom False)
                           then r\<lparr>status := STATS_RUNNING\<rparr> else r)
                    (property_sessions demo_world)\<rparr>"
    by simp_all
  have s: "map status (property_sessions
          (snd (setStatusGuarded demo_world ''s1'' ''alice'' (allowedFrom False) STATS_RUNNING)))
       = [STATS_RUNNING]"
    unfolding w by (simp add: demo_world_def allowedFrom_def)
  from setStatusGuarded_contract [OF demo_pk, of "''s1''" "''alice''" evalFrom EVAL_RUNNING False demo_env CONFIRMED] none
  have f: "setStatusGuarded demo_world ''s1'' ''alice'' evalFrom EVAL_RUNNING = (Inr False, demo_world)"
    and g: "evaluate_from_guard demo_env demo_world ''alice'' ''s1'' CONFIRMED
       = (Response 409 (conflict_body CONFIRMED), demo_world)"
    by simp_all
  from demo_pk t s f g show ?thesis by simp
qed

section \<open>The confidence gate\<close>

lemma set_status_fields [simp]:
  "usage_counters (set_status w sid st) = usage_counters w"
  "usage_ledger (set_status w sid st) = usage_ledger w"
  "listing_facts_raw (set_status w sid st) = listing_facts_raw w"
  "listing_facts_confirmed (set_status w sid st) = listing_facts_confirmed w"
  "listing_stats_raw (set_status w sid st) = listing_stats_raw w"
  "listing_stats_confirmed (set_status w sid st) = listing_stats_confirmed w"
  "listing_evaluation_raw (set_status w sid st) = listing_evaluation_raw w"
  "preferences (set_status w sid st) = preferences w"
  "ai_calls (set_status w sid st) = ai_calls w"
  by (simp_all add: set_status_def)

lemma set_status_rows:
  assumes "r \<in> set (property_sessions (set_status w sid st))" and "s_id r = sid"
  shows "status r = st"
proof -
  from assms(1) have "(\<exists>x\<in>set (property_sessions w) \<inter> {r. s_id r = sid}. r = x\<lparr>status := st\<rparr>)
      \<or> r \<in> set (property_sessions w) \<and> s_id r \<noteq> sid"
    unfolding set_status_def by (simp add: image_iff)
  then show ?thesis
  proof
    assume "\<exists>x\<in>set (property_sessions w) \<inter> {r. s_id r = sid}. r = x\<lparr>status := st\<rparr>"
    then obtain x where "r = x\<lparr>status := st\<rparr>" by blast
    then show ?thesis by simp
  next
    assume "r \<in> set (property_sessions w) \<and> s_id r \<noteq> sid"
    with assms(2) show ?thesis by simp
  qed
qed

lemma set_status_ids [simp]:
  "map s_id (property_sessions (set_status w sid st)) = map s_id (property_sessions w)"
  by (simp add: set_status_def comp_def if_distrib [of s_id] cong: if_cong)









lemma guard_frame:
  assumes "setStatusGuarded w sid uid frm target = (r, w')"
  shows "usage_counters w' = usage_counters w" "usage_ledger w' = usage_ledger w"
    "listing_facts_raw w' = listing_facts_raw w"
    "listing_facts_confirmed w' = listing_facts_confirmed w"
    "listing_stats_raw w' = listing_stats_raw w"
    "listing_stats_confirmed w' = listing_stats_confirmed w"
    "listing_evaluation_raw w' = listing_evaluation_raw w"
    "preferences w' = preferences w" "ai_calls w' = ai_calls w"
    "map s_id (property_sessions w') = map s_id (property_sessions w)"
proof -
  have "w' = w \<or> w' = w\<lparr>property_sessions :=
         map (\<lambda>r. if guard_matches sid uid frm r then r\<lparr>status := target\<rparr> else r)
           (property_sessions w)\<rparr>"
    using assms by (auto simp: setStatusGuarded_def split: sum.splits option.splits)
  then show "usage_counters w' = usage_counters w" "usage_ledger w' = usage_ledger w"
    "listing_facts_raw w' = listing_facts_raw w"
    "listing_facts_confirmed w' = listing_facts_confirmed w"
    "listing_stats_raw w' = listing_stats_raw w"
    "listing_stats_confirmed w' = listing_stats_confirmed w"
    "listing_evaluation_raw w' = listing_evaluation_raw w"
    "preferences w' = preferences w" "ai_calls w' = ai_calls w"
    "map s_id (property_sessions w') = map s_id (property_sessions w)"
    by (auto simp: comp_def if_distrib [of s_id] cong: if_cong)
qed



lemma stats_POST_reaches_guard:
  assumes "st_token req = Some token" "getUser e token = Some uid"
    and "st_property_session_id req = Some sid" "sid \<noteq> []"
    and "filter (\<lambda>r. s_id r = sid) (property_sessions w) = [session]"
    and "s_user_id session = uid"
    and "map_of (listing_facts_confirmed w) sid = Some facts"
    and "map_of (preferences w) uid = Some prefs"
    and "fst (checkMinimumPreferences prefs)"
  shows "stats_POST e w req =
     stats_from_guard e w uid sid (status session) (truthy_opt (st_force_recalc req))"
  using assms by (simp add: stats_POST_def Let_def)



lemma demo_filter_s1:
  "filter (\<lambda>r. s_id r = ''s1'') (property_sessions demo_world) =
     [\<lparr>s_id = ''s1'', s_user_id = ''alice'',
       rightmove_url = ''https://www.rightmove.co.uk/properties/170645465'',
       rightmove_listing_id = Some ''170645465'', status = CONFIRMED,
       last_extracted_at = None\<rparr>]"
  by (simp add: demo_world_def)

lemma complete_preferences_ok: "checkMinimumPreferences (complete_preferences u) = (True, [])"
  by code_simp




lemma demo_alice: "getUser demo_env ''token-alice'' = Some ''alice''"
  by (simp add: demo_env_def)




section \<open>Manual stats confirmation\<close>

lemma present_iff:
  "present a \<longleftrightarrow> (\<exists>v. a = Some v \<and> v \<noteq> JNull \<and> (\<forall>s. v = JStr s \<longrightarrow> trim s \<noteq> []))"
  by (auto simp: present_def split: option.splits json.splits)

lemma must_present: "present a \<Longrightarrow> must a m = Inr (js_default a JNull)"
  by (auto simp: present_def must_def js_default_def split: option.splits json.splits if_splits)

lemma must_absent: "\<not> present a \<Longrightarrow> must a m = Inl (MustError m)"
  by (auto simp: present_def must_def split: option.splits json.splits if_splits)

lemma must_fields_present:
  "list_all (\<lambda>k. present (js_get stats k)) ks \<Longrightarrow>
   must_fields stats ks = Inr (map (\<lambda>k. (k, js_default (js_get stats k) JNull)) ks)"
  by (induction ks) (simp_all add: must_present)

lemma must_fields_absent:
  "\<not> list_all (\<lambda>k. present (js_get stats k)) ks \<Longrightarrow>
   \<exists>m. must_fields stats ks = Inl (MustError m)"
proof (induction ks)
  case Nil
  then show ?case by simp
next
  case (Cons k ks)
  show ?case
  proof (cases "present (js_get stats k)")
    case True
    with Cons show ?thesis by (auto simp: must_present)
  next
    case False
    then show ?thesis by (simp add: must_absent)
  qed
qed

lemma confirm_POST_path:
  assumes req: "cf_token req = Some token" "getUser e token = Some uid"
      "cf_property_session_id req = Some (JStr sid)" "trim sid \<noteq> []"
      "cf_stats req = Some stats" "present (Some stats)"
    and session: "filter (\<lambda>r. s_id r = sid) (property_sessions w) = [session]"
      "s_user_id session = uid"
  shows "confirm_POST e w req =
     (if status session \<noteq> STATS_NEEDS_CONFIRMATION then
        (Response 409
           (JObj [(''error'', JStr ''Invalid state''), (''status'', JStr (stage_name (status session)))]),
         w)
      else case must_fields stats confirm_fields of
             Inl err \<Rightarrow> (caught 400 err, w)
           | Inr core \<Rightarrow>
               (case upsert_stats_confirmed e (confirm_payload e (JStr sid) stats core) of
                  Some upErr \<Rightarrow> (caught 400 upErr, w)
                | None \<Rightarrow>
                    (Response 200 (ok_status STATS_READY),
                     set_status
                       (w\<lparr>listing_stats_confirmed :=
                            AList.update sid (confirm_payload e (JStr sid) stats core)
                              (listing_stats_confirmed w)\<rparr>) sid STATS_READY)))"
proof -
  have sid: "must (Some (JStr sid)) m = Inr (JStr sid)" for m
    using req(4) by (simp add: must_def)
  have stats: "must (Some stats) m = Inr stats" for m
    using must_present [OF req(6), of m] req(6)
    by (auto simp: js_default_def present_def split: if_splits)
  have key: "filter (\<lambda>r. Some (s_id r) = id_key (JStr sid)) (property_sessions w) = [session]"
    using session(1) by (simp add: id_key_def)
  have "session \<in> set (filter (\<lambda>r. s_id r = sid) (property_sessions w))"
    by (simp add: session(1))
  then have sess: "s_id session = sid" by simp
  show ?thesis
    unfolding confirm_POST_def
    by (simp add: req(1,2,3,5) sid stats key session(2) sess Let_def split: sum.splits option.splits)
qed

lemma not_present_iff:
  "\<not> present a \<longleftrightarrow>
     a = None \<or> a = Some JNull \<or> (\<exists>s. a = Some (JStr s) \<and> trim s = [])"
proof (cases a)
  case None
  then show ?thesis by (simp add: present_def)
next
  case (Some v)
  then show ?thesis by (cases v) (simp_all add: present_def)
qed

text \<open>
  C4.  For the owner's authenticated request that names the session and carries a draft:
  unless the session's status is \<open>STATS_NEEDS_CONFIRMATION\<close> the answer is 409 with the
  current status and nothing is written.  In that status the handler asks of each of the ten
  core fields only that it is there: not \<open>undefined\<close>, not \<open>null\<close>, and not a string
  that is empty once trimmed; it checks no type.  If a field is not there the answer is 400
  and nothing is written.  If all are there the row, with the draft's own values,
  \<open>confirmed_by_user = true\<close> and \<open>confirmed_at\<close>, is offered to the store: when the
  store takes it the row is the session's confirmed stats, the status is \<open>STATS_READY\<close>
  and the answer is 200 with no look at any confidence; when the store refuses it the answer
  is 400 with the store's message and nothing is written.
\<close>

theorem confirmStats_contract:
  assumes req: "cf_token req = Some token" "getUser e token = Some uid"
      "cf_property_session_id req = Some (JStr sid)" "trim sid \<noteq> []"
      "cf_stats req = Some stats" "stats \<noteq> JNull" "\<forall>s. stats = JStr s \<longrightarrow> trim s \<noteq> []"
    and session: "filter (\<lambda>r. s_id r = sid) (property_sessions w) = [session]"
      "s_user_id session = uid"
    and run: "confirm_POST e w req = (resp, w')"
  shows "(status session \<noteq> STATS_NEEDS_CONFIRMATION \<longrightarrow>
            resp = Response 409
                     (JObj [(''error'', JStr ''Invalid state''),
                            (''status'', JStr (stage_name (status session)))])
            \<and> w' = w)
       \<and> (status session = STATS_NEEDS_CONFIRMATION
            \<and> (\<forall>k \<in> set confirm_fields.
                  \<exists>v. js_get stats k = Some v \<and> v \<noteq> JNull \<and> (\<forall>s. v = JStr s \<longrightarrow> trim s \<noteq> []))
            \<and> upsert_stats_confirmed e
                 (JObj
                    ([(''property_session_id'', JStr sid)] @
                     map (\<lambda>k. (k, the (js_get stats k))) confirm_fields @
                     [(''required_confidence'', or_null (js_get stats ''required_confidence'')),
                      (''required_source'', or_null (js_get stats ''required_source'')),
                      (''notes'', js_default (js_get stats ''notes'') (JStr ''Confirmed by user'')),
                      (''confirmed_by_user'', JBool True),
                      (''confirmed_at'', JStr (nowIso e))])) = None \<longrightarrow>
            resp = Response 200 (ok_status STATS_READY)
            \<and> map_of (listing_stats_confirmed w') sid =
                Some (JObj
                  ([(''property_session_id'', JStr sid)] @
                   map (\<lambda>k. (k, the (js_get stats k))) confirm_fields @
                   [(''required_confidence'', or_null (js_get stats ''required_confidence'')),
                    (''required_source'', or_null (js_get stats ''required_source'')),
                    (''notes'', js_default (js_get stats ''notes'') (JStr ''Confirmed by user'')),
                    (''confirmed_by_user'', JBool True),
                    (''confirmed_at'', JStr (nowIso e))]))
            \<and> (\<forall>r \<in> set (property_sessions w'). s_id r = sid \<longrightarrow> status r = STATS_READY))
       \<and> (status session = STATS_NEEDS_CONFIRMATION
            \<and> (\<forall>k \<in> set confirm_fields.
                  \<exists>v. js_get stats k = Some v \<and> v \<noteq> JNull \<and> (\<forall>s. v = JStr s \<longrightarrow> trim s \<noteq> []))
            \<and> upsert_stats_confirmed e
                 (JObj
                    ([(''property_session_id'', JStr sid)] @
                     map (\<lambda>k. (k, the (js_get stats k))) confirm_fields @
                     [(''required_confidence'', or_null (js_get stats ''required_confidence'')),
                      (''required_source'', or_null (js_get stats ''required_source'')),
                      (''notes'', js_default (js_get stats ''notes'') (JStr ''Confirmed by user'')),
                      (''confirmed_by_user'', JBool True),
                      (''confirmed_at'', JStr (nowIso e))])) = Some upErr \<longrightarrow>
            resp = Response 400 (error_body (message upErr)) \<and> w' = w)
       \<and> (status session = STATS_NEEDS_CONFIRMATION
            \<and> (\<exists>k \<in> set confirm_fields.
                  js_get stats k = None \<or> js_get stats k = Some JNull
                  \<or> (\<exists>s. js_get stats k = Some (JStr s) \<and> trim s = [])) \<longrightarrow>
            http_status resp = 400 \<and> w' = w)
       \<and> (http_status resp = 200 \<longrightarrow> status session = STATS_NEEDS_CONFIRMATION)
       \<and> confirm_fields =
            [''commute_total_minutes'', ''commute_walk_minutes'', ''commute_mode'',
             ''nearest_station_distance_m'', ''nearest_station_name'', ''supermarket_distance_m'',
             ''supermarket_name'', ''green_space_distance_m'', ''green_space_name'', ''safety_score'']
       \<and> length confirm_fields = 10"
proof -
  let ?core = "map (\<lambda>k. (k, js_default (js_get stats k) JNull)) confirm_fields"
  let ?row = "JObj
                  ([(''property_session_id'', JStr sid)] @
                   map (\<lambda>k. (k, the (js_get stats k))) confirm_fields @
                   [(''required_confidence'', or_null (js_get stats ''required_confidence'')),
                    (''required_source'', or_null (js_get stats ''required_source'')),
                    (''notes'', js_default (js_get stats ''notes'') (JStr ''Confirmed by user'')),
                    (''confirmed_by_user'', JBool True),
                    (''confirmed_at'', JStr (nowIso e))])"
  let ?all = "\<forall>k \<in> set confirm_fields.
                  \<exists>v. js_get stats k = Some v \<and> v \<noteq> JNull \<and> (\<forall>s. v = JStr s \<longrightarrow> trim s \<noteq> [])"
  have ps: "present (Some stats)"
    using req(6,7) by (simp add: present_iff)
  note path = confirm_POST_path [OF req(1-5) ps session]
  have all: "?all \<longleftrightarrow> list_all (\<lambda>k. present (js_get stats k)) confirm_fields"
    by (simp add: list_all_iff present_iff)
  have some: "(\<exists>k \<in> set confirm_fields.
                  js_get stats k = None \<or> js_get stats k = Some JNull
                  \<or> (\<exists>s. js_get stats k = Some (JStr s) \<and> trim s = []))
      \<longleftrightarrow> \<not> list_all (\<lambda>k. present (js_get stats k)) confirm_fields"
    by (simp add: list_all_iff not_present_iff)
  have row: "confirm_payload e (JStr sid) stats ?core = ?row" if ?all
  proof -
    have "map (\<lambda>k. (k, js_default (js_get stats k) JNull)) confirm_fields
        = map (\<lambda>k. (k, the (js_get stats k))) confirm_fields"
      using that by (auto simp: js_default_def)
    then show ?thesis by (simp add: confirm_payload_def)
  qed
  have a: "status session \<noteq> STATS_NEEDS_CONFIRMATION \<Longrightarrow>
      resp = Response 409
               (JObj [(''error'', JStr ''Invalid state''),
                      (''status'', JStr (stage_name (status session)))])
      \<and> w' = w"
    using run unfolding path by simp
  have acc: "confirm_POST e w req =
      (case upsert_stats_confirmed e ?row of
         Some upErr \<Rightarrow> (caught 400 upErr, w)
       | None \<Rightarrow>
           (Response 200 (ok_status STATS_READY),
            set_status (w\<lparr>listing_stats_confirmed :=
                AList.update sid ?row (listing_stats_confirmed w)\<rparr>) sid STATS_READY))"
    if "status session = STATS_NEEDS_CONFIRMATION" and ?all
    unfolding path
    by (simp only: that(1) must_fields_present [OF that(2) [unfolded all]] row [OF that(2)]
        sum.case not_not if_False simp_thms)
  have b: "resp = Response 200 (ok_status STATS_READY)
      \<and> w' = set_status (w\<lparr>listing_stats_confirmed :=
                AList.update sid ?row (listing_stats_confirmed w)\<rparr>) sid STATS_READY"
    if "status session = STATS_NEEDS_CONFIRMATION" and ?all
      and "upsert_stats_confirmed e ?row = None"
    using run unfolding acc [OF that(1,2)] that(3) by simp
  have b1: "map_of (listing_stats_confirmed w') sid = Some ?row"
    if "status session = STATS_NEEDS_CONFIRMATION" and ?all
      and "upsert_stats_confirmed e ?row = None"
    using b [OF that] by (simp add: update_conv')
  have b2: "\<forall>r \<in> set (property_sessions w'). s_id r = sid \<longrightarrow> status r = STATS_READY"
    if "status session = STATS_NEEDS_CONFIRMATION" and ?all
      and "upsert_stats_confirmed e ?row = None"
    using b [OF that] set_status_rows by blast
  have c: "resp = Response 400 (error_body (message upErr)) \<and> w' = w"
    if "status session = STATS_NEEDS_CONFIRMATION" and ?all
      and "upsert_stats_confirmed e ?row = Some upErr"
    using run unfolding acc [OF that(1,2)] that(3) by (auto simp: caught_def)
  have d: "http_status resp = 400 \<and> w' = w"
    if "status session = STATS_NEEDS_CONFIRMATION"
      and "\<not> list_all (\<lambda>k. present (js_get stats k)) confirm_fields"
  proof -
    from must_fields_absent [OF that(2)] obtain m
      where "must_fields stats confirm_fields = Inl (MustError m)" by blast
    with run show ?thesis unfolding path by (auto simp add: that(1) caught_def)
  qed
  have f: "http_status resp = 200 \<Longrightarrow> status session = STATS_NEEDS_CONFIRMATION"
    using a by (cases "status session = STATS_NEEDS_CONFIRMATION") auto
  have g: "confirm_fields =
            [''commute_total_minutes'', ''commute_walk_minutes'', ''commute_mode'',
             ''nearest_station_distance_m'', ''nearest_station_name'', ''supermarket_distance_m'',
             ''supermarket_name'', ''green_space_distance_m'', ''green_space_name'', ''safety_score'']"
    "length confirm_fields = 10"
    by (simp_all add: confirm_fields_def)
  from a b b1 b2 c d [unfolded some [symmetric]] f g show ?thesis
    by blast
qed

lemma waiting_filter:
  "filter (\<lambda>r. s_id r = ''s1'') (property_sessions waiting_world) =
     [\<lparr>s_id = ''s1'', s_user_id = ''alice'',
       rightmove_url = ''https://www.rightmove.co.uk/properties/170645465'',
       rightmove_listing_id = Some ''170645465'', status = STATS_NEEDS_CONFIRMATION,
       last_extracted_at = None\<rparr>]"
  by (simp add: waiting_world_def demo_world_def set_status_def)

lemma trim_s1: "trim ''s1'' \<noteq> []"
  by code_simp

theorem confirmStats_contract_witness:
  "fst (confirm_POST demo_env waiting_world (confirm_request_of draft_ill_typed))
     = Response 200 (ok_status STATS_READY)
   \<and> confirm_POST demo_env demo_world (confirm_request_of draft_ill_typed)
     = (Response 409 (JObj [(''error'', JStr ''Invalid state''), (''status'', JStr ''CONFIRMED'')]),
        demo_world)
   \<and> http_status (fst (confirm_POST demo_env waiting_world (confirm_request_of draft_blank_mode)))
     = 400
   \<and> snd (confirm_POST demo_env waiting_world (confirm_request_of draft_blank_mode)) = waiting_world"
proof -
  let ?a = "confirm_POST demo_env waiting_world (confirm_request_of draft_ill_typed)"
  let ?b = "confirm_POST demo_env demo_world (confirm_request_of draft_ill_typed)"
  let ?c = "confirm_POST demo_env waiting_world (confirm_request_of draft_blank_mode)"
  have req: "cf_token (confirm_request_of d) = Some ''token-alice''"
    "cf_property_session_id (confirm_request_of d) = Some (JStr ''s1'')"
    "cf_stats (confirm_request_of d) = Some d" for d
    by (simp_all add: confirm_request_of_def)
  have obj: "draft_ill_typed \<noteq> JNull" "\<forall>s. draft_ill_typed = JStr s \<longrightarrow> trim s \<noteq> []"
    "draft_blank_mode \<noteq> JNull" "\<forall>s. draft_blank_mode = JStr s \<longrightarrow> trim s \<noteq> []"
    by (simp_all add: draft_ill_typed_def draft_blank_mode_def)
  have "list_all (\<lambda>k. present (js_get draft_ill_typed k)) confirm_fields"
    by code_simp
  then have all: "\<forall>k \<in> set confirm_fields.
      \<exists>v. js_get draft_ill_typed k = Some v \<and> v \<noteq> JNull \<and> (\<forall>s. v = JStr s \<longrightarrow> trim s \<noteq> [])"
    by (simp add: list_all_iff present_iff)
  have "js_get draft_blank_mode ''commute_mode'' = Some (JStr [CHR 0xC2, CHR 0xA0])"
    "trim [CHR 0xC2, CHR 0xA0] = []" "''commute_mode'' \<in> set confirm_fields"
    by code_simp+
  then have blank: "\<exists>k \<in> set confirm_fields.
      js_get draft_blank_mode k = None \<or> js_get draft_blank_mode k = Some JNull
      \<or> (\<exists>s. js_get draft_blank_mode k = Some (JStr s) \<and> trim s = [])"
    by blast
  have store: "upsert_stats_confirmed demo_env row = None" for row
    by (simp add: demo_env_def)
  have ra: "?a = (fst ?a, snd ?a)" and rb: "?b = (fst ?b, snd ?b)" and rc: "?c = (fst ?c, snd ?c)"
    by simp_all
  from confirmStats_contract [OF req(1) demo_alice req(2) trim_s1 req(3) obj(1,2) waiting_filter _ ra]
    all store
  have 1: "fst ?a = Response 200 (ok_status STATS_READY)"
    by simp
  from confirmStats_contract [OF req(1) demo_alice req(2) trim_s1 req(3) obj(1,2) demo_filter_s1 _ rb]
  have 2: "fst ?b = Response 409 (JObj [(''error'', JStr ''Invalid state''), (''status'', JStr ''CONFIRMED'')])"
    and 3: "snd ?b = demo_world"
    by simp_all
  from confirmStats_contract [OF req(1) demo_alice req(2) trim_s1 req(3) obj(3,4) waiting_filter _ rc]
    blank
  have 4: "http_status (fst ?c) = 400" and 5: "snd ?c = waiting_world"
    by simp_all
  from 1 2 3 4 5 show ?thesis by (simp add: prod_eq_iff)
qed

text \<open>
  The core fields are ten, not nine.  The handler's own validation passes a draft whose
  \<open>commute_total_minutes\<close> is a string, \<open>commute_walk_minutes\<close> a boolean and
  \<open>commute_mode\<close> a number: whether such a row is written is the store's decision, and a
  store that refuses it makes the answer 400 with the store's message.  A draft with nine of
  the ten fields is refused.
\<close>

theorem confirm_validation_counterexample:
  "length confirm_fields \<noteq> 9
   \<and> must_fields draft_ill_typed confirm_fields =
       Inr [(''commute_total_minutes'', JStr ''soon''), (''commute_walk_minutes'', JBool True),
            (''commute_mode'', JNum 7), (''nearest_station_distance_m'', JNum 400),
            (''nearest_station_name'', JStr ''Farringdon''), (''supermarket_distance_m'', JNum 250),
            (''supermarket_name'', JStr ''Co-op''), (''green_space_distance_m'', JNum 600),
            (''green_space_name'', JStr ''Spa Fields''), (''safety_score'', JNum 6)]
   \<and> fst (confirm_POST strict_store_env waiting_world (confirm_request_of draft_ill_typed))
       = Response 400 (error_body ''22P02'')
   \<and> fst (confirm_POST strict_store_env waiting_world (confirm_request_of (JObj draft_nine)))
       = Response 400 (error_body ''safety_score required'')
   \<and> fst (confirm_POST demo_env waiting_world (confirm_request_of (JObj draft_nine)))
       = Response 400 (error_body ''safety_score required'')"
  by code_simp

section \<open>Racing callers\<close>











section \<open>Failures before the model is called\<close>

lemma guard_wins:
  assumes "filter (\<lambda>r. s_id r = sid) (property_sessions w) = [session]"
    and "s_user_id session = uid" and "status session \<in> set frm"
  shows "setStatusGuarded w sid uid frm target =
     (Inr True,
      w\<lparr>property_sessions :=
          map (\<lambda>r. if guard_matches sid uid frm r then r\<lparr>status := target\<rparr> else r)
            (property_sessions w)\<rparr>)"
proof -
  have "filter (guard_matches sid uid frm) (property_sessions w)
      = filter (\<lambda>r. s_user_id r = uid \<and> status r \<in> set frm)
          (filter (\<lambda>r. s_id r = sid) (property_sessions w))"
    by (simp add: guard_matches_def [abs_def] conj_commute)
  with assms have "filter (guard_matches sid uid frm) (property_sessions w) = [session]"
    by simp
  then show ?thesis by (simp add: setStatusGuarded_def)
qed



lemma counters_row_sessions [simp]:
  "counters_row e (w\<lparr>property_sessions := rows\<rparr>) u = counters_row e w u"
  by (simp add: counters_row_def)


lemma evaluate_POST_reaches_guard:
  assumes "ev_token req = Some token" "getUser e token = Some uid"
    and "ev_property_session_id req = Some sid" "sid \<noteq> []"
    and "filter (\<lambda>r. s_id r = sid) (property_sessions w) = [session]"
    and "s_user_id session = uid" and "status session \<in> set evalFrom"
  shows "evaluate_POST e w req = evaluate_from_guard e w uid sid (status session)"
  using assms by (auto simp add: evaluate_POST_def evalFrom_def)









section \<open>The cap on sessions\<close>

lemma counters_row_updated:
  "counters_row e (w\<lparr>usage_counters := AList.update u c cs, usage_ledger := l\<rparr>) u = c"
  by (simp add: counters_row_def update_conv')

lemma charged_props:
  assumes lt: "used_of a (counters_row e w uid) < limit_of a (counters_row e w uid)"
  shows "used_of a (counters_row e (charged e w uid sid frm target a) uid)
           = used_of a (counters_row e w uid) + 1"
    and "usage_ledger (charged e w uid sid frm target a) = usage_ledger w @ [usage_entry uid a]"
    and "ai_calls (charged e w uid sid frm target a) = ai_calls w"
proof -
  obtain r w1 where g: "setStatusGuarded w sid uid frm target = (r, w1)"
    by (cases "setStatusGuarded w sid uid frm target")
  have c: "counters_row e w1 uid = counters_row e w uid"
    by (simp add: counters_row_def guard_frame(1) [OF g])
  with lt have lt1: "used_of a (counters_row e w1 uid) < limit_of a (counters_row e w1 uid)"
    by simp
  show "used_of a (counters_row e (charged e w uid sid frm target a) uid)
           = used_of a (counters_row e w uid) + 1"
    by (simp add: charged_def g quota_granted [OF lt1] c counters_row_updated)
  show "usage_ledger (charged e w uid sid frm target a) = usage_ledger w @ [usage_entry uid a]"
    by (simp add: charged_def g quota_granted [OF lt1] guard_frame(2) [OF g])
  show "ai_calls (charged e w uid sid frm target a) = ai_calls w"
    by (simp add: charged_def g quota_granted [OF lt1] guard_frame(9) [OF g])
qed

lemma stats_after_charge:
  assumes one: "filter (\<lambda>r. s_id r = sid) (property_sessions w) = [session]"
    and own: "s_user_id session = uid" and st: "status session \<in> set (allowedFrom force)"
    and lt: "stats_used (counters_row e w uid) < stats_limit (counters_row e w uid)"
  shows "stats_from_guard e w uid sid cur force =
     (let w2 = charged e w uid sid (allowedFrom force) STATS_RUNNING Stats in
      if \<not> OPENAI_API_KEY e then
        (Response 500 (error_body ''OPENAI_API_KEY missing''), set_status w2 sid STATS_FAILED)
      else
        (let w3 = w2\<lparr>ai_calls := Suc (ai_calls w2)\<rparr> in
         case responses_create e of
           None \<Rightarrow> (caught 500 ModelError, w3)
         | Some output_text \<Rightarrow>
             (case parseJsonLoose e (case output_text of None \<Rightarrow> [] | Some t \<Rightarrow> t) of
                Inl err \<Rightarrow> (caught 500 err, w3)
              | Inr parsed \<Rightarrow>
                  if \<not> truthy parsed \<or> \<not> is_object parsed
                     \<or> \<not> truthy_opt (js_get parsed ''fields'')
                  then (Response 500 (error_body ''AI returned non-JSON or missing fields''),
                        set_status w3 sid STATS_FAILED)
                  else stats_persist e w3 sid parsed)))"
proof -
  note g = guard_wins [OF one own st, of STATS_RUNNING]
  from lt have lt1: "used_of Stats (counters_row e (w\<lparr>property_sessions := rows\<rparr>) uid)
      < limit_of Stats (counters_row e (w\<lparr>property_sessions := rows\<rparr>) uid)" for rows
    by simp
  show ?thesis
    unfolding stats_from_guard_def charged_def g
    by (simp add: quota_granted [OF lt1] Let_def)
qed

lemma evaluate_after_charge:
  assumes one: "filter (\<lambda>r. s_id r = sid) (property_sessions w) = [session]"
    and own: "s_user_id session = uid" and st: "status session \<in> set evalFrom"
    and pre: "map_of (listing_facts_confirmed w) sid = Some facts"
      "map_of (listing_stats_confirmed w) sid = Some stats"
      "map_of (preferences w) uid = Some prefs"
    and lt: "evaluate_used (counters_row e w uid) < evaluate_limit (counters_row e w uid)"
  shows "evaluate_from_guard e w uid sid cur =
     (let w2 = charged e w uid sid evalFrom EVAL_RUNNING Evaluate in
      if \<not> OPENAI_API_KEY e then
        (Response 500 (error_body ''OPENAI_API_KEY missing''), set_status w2 sid EVAL_FAILED)
      else
        (let w3 = w2\<lparr>ai_calls := Suc (ai_calls w2)\<rparr> in
         case responses_create e of
           None \<Rightarrow> (caught 500 ModelError, w3)
         | Some output_text \<Rightarrow>
             (case parseJsonLoose e (case output_text of None \<Rightarrow> [] | Some t \<Rightarrow> t) of
                Inl err \<Rightarrow> (caught 500 err, w3)
              | Inr parsed \<Rightarrow>
                  if \<not> truthy parsed \<or> \<not> is_object parsed
                  then (Response 500 (error_body ''AI returned non-JSON''),
                        set_status w3 sid EVAL_FAILED)
                  else
                    (case upsert_evaluation_raw e (evalPayload e sid parsed) of
                       Some evErr \<Rightarrow> (caught 500 evErr, w3)
                     | None \<Rightarrow>
                         (let w4 = w3\<lparr>listing_evaluation_raw :=
                                     AList.update sid (evalPayload e sid parsed)
                                       (listing_evaluation_raw w3)\<rparr>
                          in (Response 200 (ok_status AI_READY), set_status w4 sid AI_READY))))))"
proof -
  note g = guard_wins [OF one own st, of EVAL_RUNNING]
  from lt have lt1: "used_of Evaluate (counters_row e (w\<lparr>property_sessions := rows\<rparr>) uid)
      < limit_of Evaluate (counters_row e (w\<lparr>property_sessions := rows\<rparr>) uid)" for rows
    by simp
  show ?thesis
    unfolding evaluate_from_guard_def charged_def g
    by (simp add: quota_granted [OF lt1] Let_def pre)
qed

lemma parseJsonLoose_null:
  "trim text = [] \<or> (JSON_parse e (trim text) = None \<and> match_braces (trim text) = None) \<Longrightarrow>
   parseJsonLoose e text = Inr JNull"
  by (auto simp: parseJsonLoose_def Let_def)

lemma spend_props:
  assumes lt: "used_of a (counters_row e w uid) < limit_of a (counters_row e w uid)"
  shows "used_of a (counters_row e (spend e w uid a) uid) = used_of a (counters_row e w uid) + 1"
    and "usage_ledger (spend e w uid a) = usage_ledger w @ [usage_entry uid a]"
    and "ai_calls (spend e w uid a) = ai_calls w"
    and "property_sessions (spend e w uid a) = property_sessions w"
    and "listing_facts_raw (spend e w uid a) = listing_facts_raw w"
  by (simp_all add: spend_def quota_granted [OF lt] counters_row_updated)

lemma extract_POST_full:
  assumes req: "ex_token req = Some token" "getUser e token = Some uid" "runs_full req"
      "ex_rightmove_url req = Some (JStr url)" "url \<noteq> []"
    and lt: "extract_used (counters_row e w uid) < extract_limit (counters_row e w uid)"
    and fetch: "fetchRightmoveHtml e url = Some html"
  shows "extract_POST e w req =
     (case callOpenAIWithWeb e (spend e w uid Extract) of
        (Inl err, w2) \<Rightarrow> (caught_extract e err, w2)
      | (Inr facts, w2) \<Rightarrow>
          (case upsertPropertySession e w2 uid url (parseRightmoveListingId url) of
             (Inl (MAX_LINKS_REACHED n), w3) \<Rightarrow>
               (Response 403
                  (JObj [(''ok'', JBool False), (''error'', JStr ''MAX_LINKS_REACHED''),
                         (''limit'', JNum (int n))]),
                w3)
           | (Inl err, w3) \<Rightarrow> (caught_extract e err, w3)
           | (Inr session, w3) \<Rightarrow>
               (case upsert_facts_raw e (factsRow (s_id session) facts) of
                  Some err \<Rightarrow>
                    (caught_extract e err,
                     updateSessionStatus e (updateSessionStatus e w3 (s_id session) FETCHED_HTML)
                       (s_id session) AI_PARSED)
                | None \<Rightarrow>
                    (Response 200
                       (JObj [(''ok'', JBool True), (''stage'', JStr ''full''), (''user_id'', JStr uid),
                              (''session_id'', JStr (s_id session)),
                              (''listing_id'', listing_json (parseRightmoveListingId url)),
                              (''snippets'', JArr (map JStr (extractSnippets e html))),
                              (''facts'', facts)]),
                     updateSessionStatus e
                       (writeFactsRaw
                          (updateSessionStatus e (updateSessionStatus e w3 (s_id session) FETCHED_HTML)
                             (s_id session) AI_PARSED)
                          (s_id session) facts)
                       (s_id session) NEEDS_CONFIRMATION))))"
proof -
  have lt': "used_of Extract (counters_row e w uid) < limit_of Extract (counters_row e w uid)"
    using lt by simp
  let ?run = "case ex_stage req of None \<Rightarrow> JStr ''full''
              | Some s \<Rightarrow> if truthy s then s else JStr ''full''"
  have stage: "?run \<noteq> JStr ''auth''" "?run \<noteq> JStr ''quota''" "?run \<noteq> JStr ''fetch''"
    "?run \<noteq> JStr ''openai''"
    using req(3) by (auto simp: runs_full_def split: option.splits)
  show ?thesis
    unfolding extract_POST_def
    by (simp add: req(1,2,4,5) fetch stage Let_def spend_def quota_granted [OF lt'] stage_ok_def
        split: prod.splits sum.splits exn.splits option.splits)
qed


lemma upsert_capped:
  assumes "(case parseRightmoveListingId url of
              Some lid \<Rightarrow>
                filter (\<lambda>r. s_user_id r = uid \<and> rightmove_listing_id r = Some lid) (property_sessions w)
            | None \<Rightarrow>
                filter (\<lambda>r. s_user_id r = uid \<and> rightmove_url r = url) (property_sessions w)) = []"
    and "100 \<le> length (filter (\<lambda>r. s_user_id r = uid) (property_sessions w))"
  shows "upsertPropertySession e w uid url (parseRightmoveListingId url)
           = (Inl (MAX_LINKS_REACHED 100), w)"
  using assms by (simp add: upsertPropertySession_def enforceMaxLinks_def)

lemma callOpenAI_frame:
  assumes "callOpenAIWithWeb e w = (r, w')"
  shows "w' = w\<lparr>ai_calls := ai_calls w + (if OPENAI_API_KEY e then 1 else 0)\<rparr>"
  using assms
  by (auto simp: callOpenAIWithWeb_def Let_def split: if_splits option.splits sum.splits)

lemma updateSessionStatus_fields [simp]:
  "usage_counters (updateSessionStatus e w sid st) = usage_counters w"
  "usage_ledger (updateSessionStatus e w sid st) = usage_ledger w"
  "listing_facts_raw (updateSessionStatus e w sid st) = listing_facts_raw w"
  "ai_calls (updateSessionStatus e w sid st) = ai_calls w"
  by (simp_all add: updateSessionStatus_def)

lemma writeFactsRaw_fields [simp]:
  "usage_counters (writeFactsRaw w sid facts) = usage_counters w"
  "usage_ledger (writeFactsRaw w sid facts) = usage_ledger w"
  "property_sessions (writeFactsRaw w sid facts) = property_sessions w"
  "ai_calls (writeFactsRaw w sid facts) = ai_calls w"
  "listing_facts_raw (writeFactsRaw w sid facts)
     = AList.update sid (factsRow sid facts) (listing_facts_raw w)"
  by (simp_all add: writeFactsRaw_def)


lemma touch_keeps [simp]:
  "s_id (touch e sid r) = s_id r" "s_user_id (touch e sid r) = s_user_id r"
  "rightmove_listing_id (touch e sid r) = rightmove_listing_id r"
  "rightmove_url (touch e sid r) = rightmove_url r"
  by (simp_all add: touch_def)

lemma counters_row_cong:
  "usage_counters w' = usage_counters w \<Longrightarrow> counters_row e w' u = counters_row e w u"
  by (simp add: counters_row_def)

lemma callOpenAI_fst: "fst (callOpenAIWithWeb e w) = fst (callOpenAIWithWeb e w0)"
  by (simp add: callOpenAIWithWeb_def Let_def split: option.split sum.split)

lemma full_stage:
  "ex_stage req = None \<or> ex_stage req = Some (JStr ''full'') \<Longrightarrow> runs_full req"
  by (auto simp: runs_full_def)

lemma extract_capped:
  assumes req: "ex_token req = Some token" "getUser e token = Some uid" "runs_full req"
      "ex_rightmove_url req = Some (JStr url)" "url \<noteq> []"
    and lt: "extract_used (counters_row e w uid) < extract_limit (counters_row e w uid)"
    and fetch: "fetchRightmoveHtml e url = Some html"
    and ai: "fst (callOpenAIWithWeb e (spend e w uid Extract)) = Inr facts"
    and new: "(case parseRightmoveListingId url of
                 Some lid \<Rightarrow>
                   filter (\<lambda>r. s_user_id r = uid \<and> rightmove_listing_id r = Some lid)
                     (property_sessions w)
               | None \<Rightarrow>
                   filter (\<lambda>r. s_user_id r = uid \<and> rightmove_url r = url) (property_sessions w)) = []"
    and cap: "100 \<le> length (filter (\<lambda>r. s_user_id r = uid) (property_sessions w))"
    and run: "extract_POST e w req = (resp, w')"
  shows "resp = Response 403
                  (JObj [(''ok'', JBool False), (''error'', JStr ''MAX_LINKS_REACHED''),
                         (''limit'', JNum 100)])
       \<and> property_sessions w' = property_sessions w
       \<and> listing_facts_raw w' = listing_facts_raw w
       \<and> extract_used (counters_row e w' uid) = extract_used (counters_row e w uid) + 1
       \<and> usage_ledger w' = usage_ledger w @
            [\<lparr>l_user_id = uid, action_type = ''extract'', delta = - 1, reason = ''usage'',
              direction = ''debit'', l_action = ''extract'',
              l_note = ''Extract invoked via /api/extract'', amount = 1\<rparr>]
       \<and> ai_calls w' = ai_calls w + (if OPENAI_API_KEY e then 1 else 0)"
proof -
  let ?w1 = "spend e w uid Extract"
  obtain w2 where c: "callOpenAIWithWeb e ?w1 = (Inr facts, w2)"
    using ai by (cases "callOpenAIWithWeb e ?w1") simp
  have lt': "used_of Extract (counters_row e w uid) < limit_of Extract (counters_row e w uid)"
    using lt by simp
  note sp = spend_props [OF lt']
  have w2: "w2 = ?w1\<lparr>ai_calls := ai_calls ?w1 + (if OPENAI_API_KEY e then 1 else 0)\<rparr>"
    by (rule callOpenAI_frame [OF c])
  have rows2: "property_sessions w2 = property_sessions w"
    by (simp add: w2 sp)
  have up: "upsertPropertySession e w2 uid url (parseRightmoveListingId url)
      = (Inl (MAX_LINKS_REACHED 100), w2)"
    by (rule upsert_capped; unfold rows2) (rule new, rule cap)
  from run have resp: "resp = Response 403
                  (JObj [(''ok'', JBool False), (''error'', JStr ''MAX_LINKS_REACHED''),
                         (''limit'', JNum 100)])"
    and w': "w' = w2"
    unfolding extract_POST_full [OF req lt fetch] c by (simp_all add: up)
  have cnt: "counters_row e w' uid = counters_row e ?w1 uid"
    by (rule counters_row_cong) (simp add: w' w2)
  from resp sp show ?thesis
    by (simp add: cnt) (simp add: w' w2 sp usage_entry_def)
qed

text \<open>
  C7 (as amended).  For a full-stage extract by a user who has a hundred sessions or more,
  on a reference she has no session for, with extract quota left, the page fetched and facts
  returned by the model call: the answer is 403 \<open>MAX_LINKS_REACHED\<close> with limit 100, no
  session is created and no raw facts are written.  But the cap is checked after the quota
  is spent and the model is called: the extract counter is one higher, the ledger has one
  more usage entry, and the model was called if there is a credential.
\<close>

theorem max_links_after_quota:
  assumes req: "ex_token req = Some token" "getUser e token = Some uid"
      "ex_rightmove_url req = Some (JStr url)" "url \<noteq> []"
    and stage: "ex_stage req = None \<or> ex_stage req = Some (JStr ''full'')"
    and lt: "extract_used (counters_row e w uid) < extract_limit (counters_row e w uid)"
    and fetch: "fetchRightmoveHtml e url = Some html"
    and ai: "fst (callOpenAIWithWeb e w) = Inr facts"
    and new: "(case parseRightmoveListingId url of
                 Some lid \<Rightarrow>
                   filter (\<lambda>r. s_user_id r = uid \<and> rightmove_listing_id r = Some lid)
                     (property_sessions w)
               | None \<Rightarrow>
                   filter (\<lambda>r. s_user_id r = uid \<and> rightmove_url r = url) (property_sessions w)) = []"
    and cap: "100 \<le> length (filter (\<lambda>r. s_user_id r = uid) (property_sessions w))"
    and run: "extract_POST e w req = (resp, w')"
  shows "resp = Response 403
                  (JObj [(''ok'', JBool False), (''error'', JStr ''MAX_LINKS_REACHED''),
                         (''limit'', JNum 100)])
       \<and> property_sessions w' = property_sessions w
       \<and> listing_facts_raw w' = listing_facts_raw w
       \<and> extract_used (counters_row e w' uid) = extract_used (counters_row e w uid) + 1
       \<and> usage_ledger w' = usage_ledger w @
            [\<lparr>l_user_id = uid, action_type = ''extract'', delta = - 1, reason = ''usage'',
              direction = ''debit'', l_action = ''extract'',
              l_note = ''Extract invoked via /api/extract'', amount = 1\<rparr>]
       \<and> ai_calls w' = ai_calls w + (if OPENAI_API_KEY e then 1 else 0)"
proof -
  have ai': "fst (callOpenAIWithWeb e (spend e w uid Extract)) = Inr facts"
    using ai callOpenAI_fst [of e "spend e w uid Extract" w] by simp
  show ?thesis
    by (rule extract_capped [OF req(1,2) full_stage [OF stage] req(3,4) lt fetch ai' new cap run])
qed

lemma callOpenAI_ok:
  assumes "OPENAI_API_KEY e" "responses_create e = Some (Some t)" "JSON_parse e t = Some v"
    "truthy v" "is_object v"
  shows "callOpenAIWithWeb e w = (Inr v, w\<lparr>ai_calls := Suc (ai_calls w)\<rparr>)"
  using assms by (simp add: callOpenAIWithWeb_def Let_def)

lemma extract_env_facts:
  "fst (callOpenAIWithWeb extract_env w) = Inr (JObj [(''price'', JNum 450000)])"
proof -
  have "OPENAI_API_KEY extract_env" by code_simp
  moreover have \<open>responses_create extract_env = Some (Some ''{"price":450000}'')\<close> by code_simp
  moreover have \<open>JSON_parse extract_env ''{"price":450000}'' = Some (JObj [(''price'', JNum 450000)])\<close>
    by code_simp
  ultimately show ?thesis by (simp add: callOpenAI_ok)
qed

lemma extract_env_basics:
  "getUser extract_env ''token-alice'' = Some ''alice''"
  "fetchRightmoveHtml extract_env url = Some ''<html></html>''"
  "OPENAI_API_KEY extract_env"
  by (simp_all add: extract_env_def demo_env_def)

lemma nat_digits_short: "n < 10000 \<Longrightarrow> length (nat_digits n) \<le> 4"
  by (simp add: nat_digits.simps [of n] nat_digits.simps [of "n div 10"]
      nat_digits.simps [of "n div 10 div 10"] nat_digits.simps [of "n div 10 div 10 div 10"])

lemma crowded_rows:
  "property_sessions crowded_world =
     map (\<lambda>n. \<lparr>s_id = ''c'' @ nat_digits n, s_user_id = ''alice'',
                 rightmove_url = ''https://www.rightmove.co.uk/properties/'' @ nat_digits (1000 + n),
                 rightmove_listing_id = Some (nat_digits (1000 + n)),
                 status = NEEDS_CONFIRMATION, last_extracted_at = None\<rparr>)
       [0..<100]"
  by (simp add: crowded_world_def)

lemma crowded_cap:
  "length (filter (\<lambda>r. s_user_id r = ''alice'') (property_sessions crowded_world)) = 100"
  by (simp add: crowded_rows filter_map comp_def)

lemma crowded_new:
  "filter (\<lambda>r. s_user_id r = ''alice'' \<and> rightmove_listing_id r = Some ''170645465'')
     (property_sessions crowded_world) = []"
proof -
  have "nat_digits (1000 + n) \<noteq> ''170645465''" if "n < 100" for n
  proof
    assume "nat_digits (1000 + n) = ''170645465''"
    then have "length (nat_digits (1000 + n)) = 9" by simp
    with nat_digits_short [of "1000 + n"] that show False by simp
  qed
  then show ?thesis
    by (simp add: crowded_rows filter_empty_conv)
qed

lemma demo_listing:
  "parseRightmoveListingId ''https://www.rightmove.co.uk/properties/170645465'' = Some ''170645465''"
  by code_simp

lemma crowded_row: "counters_row e crowded_world ''alice''
    = \<lparr>extract_used = 0, extract_limit = 5, stats_used = 0, stats_limit = 3,
       evaluate_used = 0, evaluate_limit = 3\<rparr>"
  by (simp add: counters_row_def crowded_world_def fresh_world_def)

lemma demo_extract_request_basics:
  "ex_token demo_extract_request = Some ''token-alice''"
  "ex_rightmove_url demo_extract_request
     = Some (JStr ''https://www.rightmove.co.uk/properties/170645465'')"
  "''https://www.rightmove.co.uk/properties/170645465'' \<noteq> []"
  "ex_stage demo_extract_request = None
     \<or> ex_stage demo_extract_request = Some (JStr ''full'')"
  "runs_full demo_extract_request"
  by (simp_all add: demo_extract_request_def runs_full_def)

theorem max_links_after_quota_witness:
  "fst (extract_POST extract_env crowded_world demo_extract_request)
     = Response 403
         (JObj [(''ok'', JBool False), (''error'', JStr ''MAX_LINKS_REACHED''), (''limit'', JNum 100)])
   \<and> property_sessions (snd (extract_POST extract_env crowded_world demo_extract_request))
     = property_sessions crowded_world
   \<and> extract_used (counters_row extract_env
         (snd (extract_POST extract_env crowded_world demo_extract_request)) ''alice'') = 1"
proof -
  let ?r = "extract_POST extract_env crowded_world demo_extract_request"
  have lt: "extract_used (counters_row extract_env crowded_world ''alice'')
      < extract_limit (counters_row extract_env crowded_world ''alice'')"
    by (simp add: crowded_row)
  have new: "(case parseRightmoveListingId ''https://www.rightmove.co.uk/properties/170645465'' of
                 Some lid \<Rightarrow>
                   filter (\<lambda>r. s_user_id r = ''alice'' \<and> rightmove_listing_id r = Some lid)
                     (property_sessions crowded_world)
               | None \<Rightarrow>
                   filter (\<lambda>r. s_user_id r = ''alice''
                       \<and> rightmove_url r = ''https://www.rightmove.co.uk/properties/170645465'')
                     (property_sessions crowded_world)) = []"
    by (simp only: demo_listing option.case crowded_new)
  have cap: "100 \<le> length (filter (\<lambda>r. s_user_id r = ''alice'') (property_sessions crowded_world))"
    by (simp add: crowded_cap)
  have run: "?r = (fst ?r, snd ?r)" by simp
  from max_links_after_quota [OF demo_extract_request_basics(1) extract_env_basics(1)
      demo_extract_request_basics(2-4) lt extract_env_basics(2) extract_env_facts new cap run]
  show ?thesis by (simp add: crowded_row)
qed

text \<open>
  On a user with a hundred sessions, no usage entry and no extract used, the refused call
  leaves the counter at one, one usage entry in the ledger and one call of the model.
\<close>

theorem max_links_counterexample:
  "fst (extract_POST extract_env crowded_world demo_extract_request)
     = Response 403
         (JObj [(''ok'', JBool False), (''error'', JStr ''MAX_LINKS_REACHED''), (''limit'', JNum 100)])
   \<and> map s_user_id (property_sessions crowded_world) = replicate 100 ''alice''
   \<and> extract_used (counters_row extract_env crowded_world ''alice'') = 0
   \<and> extract_used (counters_row extract_env
         (snd (extract_POST extract_env crowded_world demo_extract_request)) ''alice'') = 1
   \<and> usage_ledger crowded_world = []
   \<and> usage_ledger (snd (extract_POST extract_env crowded_world demo_extract_request))
     = [\<lparr>l_user_id = ''alice'', action_type = ''extract'', delta = - 1, reason = ''usage'',
         direction = ''debit'', l_action = ''extract'',
         l_note = ''Extract invoked via /api/extract'', amount = 1\<rparr>]
   \<and> ai_calls crowded_world = 0
   \<and> ai_calls (snd (extract_POST extract_env crowded_world demo_extract_request)) = 1"
proof -
  let ?r = "extract_POST extract_env crowded_world demo_extract_request"
  have lt: "extract_used (counters_row extract_env crowded_world ''alice'')
      < extract_limit (counters_row extract_env crowded_world ''alice'')"
    by (simp add: crowded_row)
  have new: "(case parseRightmoveListingId ''https://www.rightmove.co.uk/properties/170645465'' of
                 Some lid \<Rightarrow>
                   filter (\<lambda>r. s_user_id r = ''alice'' \<and> rightmove_listing_id r = Some lid)
                     (property_sessions crowded_world)
               | None \<Rightarrow>
                   filter (\<lambda>r. s_user_id r = ''alice''
                       \<and> rightmove_url r = ''https://www.rightmove.co.uk/properties/170645465'')
                     (property_sessions crowded_world)) = []"
    by (simp only: demo_listing option.case crowded_new)
  have cap: "100 \<le> length (filter (\<lambda>r. s_user_id r = ''alice'') (property_sessions crowded_world))"
    by (simp add: crowded_cap)
  have run: "?r = (fst ?r, snd ?r)" by simp
  have empty: "usage_ledger crowded_world = []" "ai_calls crowded_world = 0"
    by (simp_all add: crowded_world_def fresh_world_def demo_world_def)
  from extract_capped [OF demo_extract_request_basics(1) extract_env_basics(1)
      demo_extract_request_basics(5,2,3) lt extract_env_basics(2) extract_env_facts new cap run]
  moreover have "map s_user_id (property_sessions crowded_world) = replicate 100 ''alice''"
    by (simp add: crowded_rows comp_def map_replicate_const)
  ultimately show ?thesis by (simp add: crowded_row empty extract_env_basics(3))
qed

section \<open>Extract of a known reference\<close>






section \<open>Failures after the quota is spent\<close>

lemma touch_status: "s_id r = sid \<Longrightarrow> status (touch e sid r) = NEEDS_CONFIRMATION"
  by (simp add: touch_def)

lemma callOpenAI_no_key:
  "\<not> OPENAI_API_KEY e \<Longrightarrow>
   callOpenAIWithWeb e w = (Inr (placeholder_facts missing_key_warning), w)"
  by (simp add: callOpenAIWithWeb_def)

lemma stats_fails_charged:
  assumes session: "filter (\<lambda>r. s_id r = sid) (property_sessions w) = [session]"
      "s_user_id session = uid"
    and st: "status session \<in> set (allowedFrom force)"
    and lt: "stats_used (counters_row e w uid) < stats_limit (counters_row e w uid)"
    and fail: "\<not> OPENAI_API_KEY e
               \<or> responses_create e = Some out
                 \<and> parseJsonLoose e (case out of None \<Rightarrow> [] | Some t \<Rightarrow> t) = Inr parsed
                 \<and> (\<not> truthy parsed \<or> \<not> is_object parsed
                       \<or> \<not> truthy_opt (js_get parsed ''fields''))"
  shows "http_status (fst (stats_from_guard e w uid sid cur force)) = 500
          \<and> (\<forall>r \<in> set (property_sessions (snd (stats_from_guard e w uid sid cur force))).
                s_id r = sid \<longrightarrow> status r = STATS_FAILED)
          \<and> stats_used (counters_row e (snd (stats_from_guard e w uid sid cur force)) uid)
              = stats_used (counters_row e w uid) + 1
          \<and> usage_ledger (snd (stats_from_guard e w uid sid cur force))
              = usage_ledger w @ [usage_entry uid Stats]"
proof -
  let ?w2 = "charged e w uid sid (allowedFrom force) STATS_RUNNING Stats"
  let ?w3 = "?w2\<lparr>ai_calls := Suc (ai_calls ?w2)\<rparr>"
  have lt': "used_of Stats (counters_row e w uid) < limit_of Stats (counters_row e w uid)"
    using lt by simp
  note ch = charged_props [OF lt', of sid "allowedFrom force" STATS_RUNNING]
  have "stats_from_guard e w uid sid cur force
        = (Response 500 (error_body ''OPENAI_API_KEY missing''), set_status ?w2 sid STATS_FAILED)
      \<or> stats_from_guard e w uid sid cur force
        = (Response 500 (error_body ''AI returned non-JSON or missing fields''),
           set_status ?w3 sid STATS_FAILED)"
  proof (cases "OPENAI_API_KEY e")
    case False
    then show ?thesis
      unfolding stats_after_charge [OF session st lt] by (simp add: Let_def)
  next
    case True
    with fail have "responses_create e = Some out"
      "parseJsonLoose e (case out of None \<Rightarrow> [] | Some t \<Rightarrow> t) = Inr parsed"
      "\<not> truthy parsed \<or> \<not> is_object parsed \<or> \<not> truthy_opt (js_get parsed ''fields'')"
      by simp_all
    with True show ?thesis
      unfolding stats_after_charge [OF session st lt] by (simp add: Let_def)
  qed
  then obtain b w3 where r: "stats_from_guard e w uid sid cur force
        = (Response 500 b, set_status w3 sid STATS_FAILED)"
    and c: "usage_counters w3 = usage_counters ?w2" and l: "usage_ledger w3 = usage_ledger ?w2"
    by fastforce
  have "counters_row e (set_status w3 sid STATS_FAILED) uid = counters_row e ?w2 uid"
    by (rule counters_row_cong) (simp add: c)
  moreover have "\<forall>r \<in> set (property_sessions (set_status w3 sid STATS_FAILED)).
      s_id r = sid \<longrightarrow> status r = STATS_FAILED"
    using set_status_rows by blast
  ultimately show ?thesis
    using ch l by (simp add: r)
qed

lemma evaluate_fails_charged:
  assumes session: "filter (\<lambda>r. s_id r = sid) (property_sessions w) = [session]"
      "s_user_id session = uid"
    and st: "status session \<in> set evalFrom"
    and pre: "map_of (listing_facts_confirmed w) sid = Some facts"
      "map_of (listing_stats_confirmed w) sid = Some stats"
      "map_of (preferences w) uid = Some prefs"
    and lt: "evaluate_used (counters_row e w uid) < evaluate_limit (counters_row e w uid)"
    and fail: "\<not> OPENAI_API_KEY e
               \<or> responses_create e = Some out
                 \<and> parseJsonLoose e (case out of None \<Rightarrow> [] | Some t \<Rightarrow> t) = Inr parsed
                 \<and> (\<not> truthy parsed \<or> \<not> is_object parsed)"
  shows "http_status (fst (evaluate_from_guard e w uid sid cur)) = 500
          \<and> (\<forall>r \<in> set (property_sessions (snd (evaluate_from_guard e w uid sid cur))).
                s_id r = sid \<longrightarrow> status r = EVAL_FAILED)
          \<and> evaluate_used (counters_row e (snd (evaluate_from_guard e w uid sid cur)) uid)
              = evaluate_used (counters_row e w uid) + 1
          \<and> usage_ledger (snd (evaluate_from_guard e w uid sid cur))
              = usage_ledger w @ [usage_entry uid Evaluate]"
proof -
  let ?w2 = "charged e w uid sid evalFrom EVAL_RUNNING Evaluate"
  let ?w3 = "?w2\<lparr>ai_calls := Suc (ai_calls ?w2)\<rparr>"
  have lt': "used_of Evaluate (counters_row e w uid) < limit_of Evaluate (counters_row e w uid)"
    using lt by simp
  note ch = charged_props [OF lt', of sid evalFrom EVAL_RUNNING]
  have "evaluate_from_guard e w uid sid cur
        = (Response 500 (error_body ''OPENAI_API_KEY missing''), set_status ?w2 sid EVAL_FAILED)
      \<or> evaluate_from_guard e w uid sid cur
        = (Response 500 (error_body ''AI returned non-JSON''), set_status ?w3 sid EVAL_FAILED)"
  proof (cases "OPENAI_API_KEY e")
    case False
    then show ?thesis
      unfolding evaluate_after_charge [OF session st pre lt] by (simp add: Let_def)
  next
    case True
    with fail have "responses_create e = Some out"
      "parseJsonLoose e (case out of None \<Rightarrow> [] | Some t \<Rightarrow> t) = Inr parsed"
      "\<not> truthy parsed \<or> \<not> is_object parsed"
      by simp_all
    with True show ?thesis
      unfolding evaluate_after_charge [OF session st pre lt] by (simp add: Let_def)
  qed
  then obtain b w3 where r: "evaluate_from_guard e w uid sid cur
        = (Response 500 b, set_status w3 sid EVAL_FAILED)"
    and c: "usage_counters w3 = usage_counters ?w2" and l: "usage_ledger w3 = usage_ledger ?w2"
    by fastforce
  have "counters_row e (set_status w3 sid EVAL_FAILED) uid = counters_row e ?w2 uid"
    by (rule counters_row_cong) (simp add: c)
  moreover have "\<forall>r \<in> set (property_sessions (set_status w3 sid EVAL_FAILED)).
      s_id r = sid \<longrightarrow> status r = EVAL_FAILED"
    using set_status_rows by blast
  ultimately show ?thesis
    using ch l by (simp add: r)
qed

text \<open>
  C6 (as amended).  In compute-stats and in evaluate, for the owner's request that has passed
  the guard and spent one unit of quota: if the credential is absent, or \<open>parseJsonLoose\<close>
  returns a value that is falsy or not an object (for compute-stats also one without
  \<open>fields\<close>), the answer is 500, the session's status is the stage's failed state, the
  counter stays one higher and the ledger keeps its usage entry.  \<open>parseJsonLoose\<close>
  returns \<open>null\<close>, which is falsy, for an answer that is empty once trimmed and for an
  answer that does not parse and has no brace pair.  Extract has no such failure: without
  the credential \<open>callOpenAIWithWeb\<close> returns placeholder facts and changes nothing.
\<close>

theorem upstream_failure_after_charge:
  assumes session: "filter (\<lambda>r. s_id r = sid) (property_sessions w) = [session]"
      "s_user_id session = uid"
    and user: "getUser e token = Some uid" "sid \<noteq> []"
    and sreq: "st_token sreq = Some token" "st_property_session_id sreq = Some sid"
    and ereq: "ev_token ereq = Some token" "ev_property_session_id ereq = Some sid"
    and facts: "map_of (listing_facts_confirmed w) sid = Some facts"
    and prefs: "map_of (preferences w) uid = Some prefs"
  shows "(fst (checkMinimumPreferences prefs)
          \<and> status session \<in> set (allowedFrom (truthy_opt (st_force_recalc sreq)))
          \<and> stats_used (counters_row e w uid) < stats_limit (counters_row e w uid)
          \<and> (\<not> OPENAI_API_KEY e
               \<or> responses_create e = Some out
                 \<and> parseJsonLoose e (case out of None \<Rightarrow> [] | Some t \<Rightarrow> t) = Inr parsed
                 \<and> (\<not> truthy parsed \<or> \<not> is_object parsed
                       \<or> \<not> truthy_opt (js_get parsed ''fields''))) \<longrightarrow>
          http_status (fst (stats_POST e w sreq)) = 500
          \<and> (\<forall>r \<in> set (property_sessions (snd (stats_POST e w sreq))).
                s_id r = sid \<longrightarrow> status r = STATS_FAILED)
          \<and> stats_used (counters_row e (snd (stats_POST e w sreq)) uid)
              = stats_used (counters_row e w uid) + 1
          \<and> usage_ledger (snd (stats_POST e w sreq))
              = usage_ledger w @
                  [\<lparr>l_user_id = uid, action_type = ''stats'', delta = - 1, reason = ''usage'',
                    direction = ''debit'', l_action = ''stats'',
                    l_note = action_note Stats, amount = 1\<rparr>])
       \<and> (map_of (listing_stats_confirmed w) sid = Some stats
          \<and> status session \<in> set evalFrom
          \<and> evaluate_used (counters_row e w uid) < evaluate_limit (counters_row e w uid)
          \<and> (\<not> OPENAI_API_KEY e
               \<or> responses_create e = Some out
                 \<and> parseJsonLoose e (case out of None \<Rightarrow> [] | Some t \<Rightarrow> t) = Inr parsed
                 \<and> (\<not> truthy parsed \<or> \<not> is_object parsed)) \<longrightarrow>
          http_status (fst (evaluate_POST e w ereq)) = 500
          \<and> (\<forall>r \<in> set (property_sessions (snd (evaluate_POST e w ereq))).
                s_id r = sid \<longrightarrow> status r = EVAL_FAILED)
          \<and> evaluate_used (counters_row e (snd (evaluate_POST e w ereq)) uid)
              = evaluate_used (counters_row e w uid) + 1
          \<and> usage_ledger (snd (evaluate_POST e w ereq))
              = usage_ledger w @
                  [\<lparr>l_user_id = uid, action_type = ''evaluate'', delta = - 1, reason = ''usage'',
                    direction = ''debit'', l_action = ''evaluate'',
                    l_note = action_note Evaluate, amount = 1\<rparr>])
       \<and> (trim text = []
            \<or> JSON_parse e (trim text) = None \<and> match_braces (trim text) = None \<longrightarrow>
          parseJsonLoose e text = Inr JNull)
       \<and> \<not> truthy JNull
       \<and> (\<not> OPENAI_API_KEY e \<longrightarrow>
            callOpenAIWithWeb e w0 = (Inr (placeholder_facts missing_key_warning), w0))"
proof -
  have a: "http_status (fst (stats_POST e w sreq)) = 500
          \<and> (\<forall>r \<in> set (property_sessions (snd (stats_POST e w sreq))).
                s_id r = sid \<longrightarrow> status r = STATS_FAILED)
          \<and> stats_used (counters_row e (snd (stats_POST e w sreq)) uid)
              = stats_used (counters_row e w uid) + 1
          \<and> usage_ledger (snd (stats_POST e w sreq))
              = usage_ledger w @
                  [\<lparr>l_user_id = uid, action_type = ''stats'', delta = - 1, reason = ''usage'',
                    direction = ''debit'', l_action = ''stats'',
                    l_note = action_note Stats, amount = 1\<rparr>]"
    if "fst (checkMinimumPreferences prefs)"
      and "status session \<in> set (allowedFrom (truthy_opt (st_force_recalc sreq)))"
      and "stats_used (counters_row e w uid) < stats_limit (counters_row e w uid)"
      and "\<not> OPENAI_API_KEY e
               \<or> responses_create e = Some out
                 \<and> parseJsonLoose e (case out of None \<Rightarrow> [] | Some t \<Rightarrow> t) = Inr parsed
                 \<and> (\<not> truthy parsed \<or> \<not> is_object parsed
                       \<or> \<not> truthy_opt (js_get parsed ''fields''))"
    using stats_fails_charged [OF session that(2,3,4)]
    unfolding stats_POST_reaches_guard [OF sreq(1) user(1) sreq(2) user(2) session facts prefs that(1)]
    by (simp add: usage_entry_def)
  have b: "http_status (fst (evaluate_POST e w ereq)) = 500
          \<and> (\<forall>r \<in> set (property_sessions (snd (evaluate_POST e w ereq))).
                s_id r = sid \<longrightarrow> status r = EVAL_FAILED)
          \<and> evaluate_used (counters_row e (snd (evaluate_POST e w ereq)) uid)
              = evaluate_used (counters_row e w uid) + 1
          \<and> usage_ledger (snd (evaluate_POST e w ereq))
              = usage_ledger w @
                  [\<lparr>l_user_id = uid, action_type = ''evaluate'', delta = - 1, reason = ''usage'',
                    direction = ''debit'', l_action = ''evaluate'',
                    l_note = action_note Evaluate, amount = 1\<rparr>]"
    if "map_of (listing_stats_confirmed w) sid = Some stats"
      and "status session \<in> set evalFrom"
      and "evaluate_used (counters_row e w uid) < evaluate_limit (counters_row e w uid)"
      and "\<not> OPENAI_API_KEY e
               \<or> responses_create e = Some out
                 \<and> parseJsonLoose e (case out of None \<Rightarrow> [] | Some t \<Rightarrow> t) = Inr parsed
                 \<and> (\<not> truthy parsed \<or> \<not> is_object parsed)"
    using evaluate_fails_charged [OF session that(2) facts that(1) prefs that(3,4)]
    unfolding evaluate_POST_reaches_guard [OF ereq(1) user(1) ereq(2) user(2) session that(2)]
    by (simp add: usage_entry_def)
  have c: "trim text = []
            \<or> JSON_parse e (trim text) = None \<and> match_braces (trim text) = None \<Longrightarrow>
          parseJsonLoose e text = Inr JNull"
    by (rule parseJsonLoose_null)
  have d: "\<not> truthy JNull" by simp
  have f: "\<not> OPENAI_API_KEY e \<Longrightarrow>
      callOpenAIWithWeb e w0 = (Inr (placeholder_facts missing_key_warning), w0)"
    by (rule callOpenAI_no_key)
  from a b c d f show ?thesis by blast
qed

lemma fresh_filter:
  "filter (\<lambda>r. s_id r = ''s1'') (property_sessions fresh_world) =
     [\<lparr>s_id = ''s1'', s_user_id = ''alice'',
       rightmove_url = ''https://www.rightmove.co.uk/properties/170645465'',
       rightmove_listing_id = Some ''170645465'', status = CONFIRMED,
       last_extracted_at = None\<rparr>]"
  by (simp add: fresh_world_def demo_world_def)

lemma incomplete_filter:
  "filter (\<lambda>r. s_id r = ''s1'') (property_sessions incomplete_world) =
     [\<lparr>s_id = ''s1'', s_user_id = ''alice'',
       rightmove_url = ''https://www.rightmove.co.uk/properties/170645465'',
       rightmove_listing_id = Some ''170645465'', status = STATS_READY,
       last_extracted_at = None\<rparr>]"
  by (simp add: incomplete_world_def ready_world_def demo_world_def set_status_def)

theorem upstream_failure_after_charge_witness:
  "http_status (fst (stats_POST no_key_env fresh_world demo_stats_request)) = 500
   \<and> map status (property_sessions (snd (stats_POST no_key_env fresh_world demo_stats_request)))
       = [STATS_FAILED]
   \<and> stats_used (counters_row no_key_env
         (snd (stats_POST no_key_env fresh_world demo_stats_request)) ''alice'') = 1
   \<and> http_status (fst (evaluate_POST prose_env incomplete_world demo_evaluate_request)) = 500
   \<and> map status
         (property_sessions (snd (evaluate_POST prose_env incomplete_world demo_evaluate_request)))
       = [EVAL_FAILED]
   \<and> evaluate_used (counters_row prose_env
         (snd (evaluate_POST prose_env incomplete_world demo_evaluate_request)) ''alice'') = 1"
proof -
  let ?s = "stats_POST no_key_env fresh_world demo_stats_request"
  let ?v = "evaluate_POST prose_env incomplete_world demo_evaluate_request"
  have u: "getUser no_key_env ''token-alice'' = Some ''alice''"
    "getUser prose_env ''token-alice'' = Some ''alice''" "''s1'' \<noteq> []"
    by (simp_all add: no_key_env_def prose_env_def demo_env_def)
  have sreq: "st_token demo_stats_request = Some ''token-alice''"
    "st_property_session_id demo_stats_request = Some ''s1''"
    by (simp_all add: demo_stats_request_def)
  have ereq: "ev_token demo_evaluate_request = Some ''token-alice''"
    "ev_property_session_id demo_evaluate_request = Some ''s1''"
    by (simp_all add: demo_evaluate_request_def)
  have own: "s_user_id \<lparr>s_id = ''s1'', s_user_id = ''alice'',
       rightmove_url = ''https://www.rightmove.co.uk/properties/170645465'',
       rightmove_listing_id = Some ''170645465'', status = st,
       last_extracted_at = None\<rparr> = ''alice''" for st
    by simp
  have ffacts: "map_of (listing_facts_confirmed fresh_world) ''s1''
      = Some (JObj [(''property_session_id'', JStr ''s1''), (''price'', JNum 450000)])"
    and fprefs: "map_of (preferences fresh_world) ''alice'' = Some (complete_preferences ''alice'')"
    and frow: "counters_row e fresh_world ''alice''
      = \<lparr>extract_used = 0, extract_limit = 5, stats_used = 0, stats_limit = 3,
         evaluate_used = 0, evaluate_limit = 3\<rparr>" for e
    by (simp_all add: fresh_world_def demo_world_def counters_row_def)
  have ifacts: "map_of (listing_facts_confirmed incomplete_world) ''s1''
      = Some (JObj [(''property_session_id'', JStr ''s1''), (''price'', JNum 450000)])"
    and istats: "map_of (listing_stats_confirmed incomplete_world) ''s1''
      = Some (JObj [(''property_session_id'', JStr ''s1'')])"
    and iprefs: "map_of (preferences incomplete_world) ''alice'' = Some (defaultPreferences ''alice'')"
    and irow: "counters_row e incomplete_world ''alice''
      = \<lparr>extract_used = 5, extract_limit = 5, stats_used = 0, stats_limit = 3,
         evaluate_used = 0, evaluate_limit = 3\<rparr>" for e
    by (simp_all add: incomplete_world_def ready_world_def demo_world_def counters_row_def
        set_status_def)
  have force: "truthy_opt (st_force_recalc demo_stats_request) = False"
    by (simp add: demo_stats_request_def truthy_opt_def)
  have nokey: "\<not> OPENAI_API_KEY no_key_env"
    by (simp add: no_key_env_def)
  have prose: "responses_create prose_env = Some (Some ''I could not open the page.'')"
    "parseJsonLoose prose_env ''I could not open the page.'' = Inr JNull"
    by code_simp+
  have rows: "property_sessions (snd ?s) = [r1]" "property_sessions (snd ?v) = [r2]"
    if "r1 = hd (property_sessions (snd ?s))" "r2 = hd (property_sessions (snd ?v))" for r1 r2
    unfolding that by code_simp+
  have ids: "s_id (hd (property_sessions (snd ?s))) = ''s1''"
    "s_id (hd (property_sessions (snd ?v))) = ''s1''"
    by code_simp+
  from upstream_failure_after_charge [where out = None and parsed = JNull,
      OF fresh_filter own u(1,3) sreq ereq ffacts fprefs]
    nokey
  have 1: "http_status (fst ?s) = 500"
    and 2: "\<forall>r \<in> set (property_sessions (snd ?s)). s_id r = ''s1'' \<longrightarrow> status r = STATS_FAILED"
    and 3: "stats_used (counters_row no_key_env (snd ?s) ''alice'') = 1"
    by (simp_all add: complete_preferences_ok force allowedFrom_def frow)
  from upstream_failure_after_charge [where out = "Some ''I could not open the page.''"
      and parsed = JNull and stats = "JObj [(''property_session_id'', JStr ''s1'')]",
      OF incomplete_filter own u(2,3) sreq ereq ifacts iprefs]
    prose
  have 4: "http_status (fst ?v) = 500"
    and 5: "\<forall>r \<in> set (property_sessions (snd ?v)). s_id r = ''s1'' \<longrightarrow> status r = EVAL_FAILED"
    and 6: "evaluate_used (counters_row prose_env (snd ?v) ''alice'') = 1"
    by (simp_all add: istats evalFrom_def irow)
  from 2 ids(1) rows(1) [OF refl] have 7: "map status (property_sessions (snd ?s)) = [STATS_FAILED]"
    by (metis list.set_intros(1) list.simps(8,9))
  from 5 ids(2) rows(2) [OF refl] have 8: "map status (property_sessions (snd ?v)) = [EVAL_FAILED]"
    by (metis list.set_intros(1) list.simps(8,9))
  from 1 3 4 6 7 8 show ?thesis by simp
qed

text \<open>
  Extract without the credential, and extract with an answer in prose, answer 200 with
  placeholder facts: the session ends in \<open>NEEDS_CONFIRMATION\<close>, not in a failed state,
  and the unit of quota is spent.  With a store that refuses the row of placeholder facts
  the answer is 500 and the session is left in \<open>AI_PARSED\<close>; the stages have no failed
  state for extract.
\<close>

theorem extract_without_key_counterexample:
  "OPENAI_API_KEY no_key_env = False
   \<and> extract_used (counters_row no_key_env fresh_world ''alice'') = 0
   \<and> fst (extract_POST no_key_env fresh_world demo_extract_request)
       = Response 200
           (JObj [(''ok'', JBool True), (''stage'', JStr ''full''), (''user_id'', JStr ''alice''),
                  (''session_id'', JStr ''s1''), (''listing_id'', JStr ''170645465''),
                  (''snippets'', JArr []),
                  (''facts'', placeholder_facts missing_key_warning)])
   \<and> map status (property_sessions (snd (extract_POST no_key_env fresh_world demo_extract_request)))
       = [NEEDS_CONFIRMATION]
   \<and> extract_used (counters_row no_key_env
         (snd (extract_POST no_key_env fresh_world demo_extract_request)) ''alice'') = 1
   \<and> fst (extract_POST prose_env fresh_world demo_extract_request)
       = Response 200
           (JObj [(''ok'', JBool True), (''stage'', JStr ''full''), (''user_id'', JStr ''alice''),
                  (''session_id'', JStr ''s1''), (''listing_id'', JStr ''170645465''),
                  (''snippets'', JArr []),
                  (''facts'', placeholder_facts ''AI returned non-JSON or empty output'')])
   \<and> map status (property_sessions (snd (extract_POST prose_env fresh_world demo_extract_request)))
       = [NEEDS_CONFIRMATION]
   \<and> http_status (fst (extract_POST refusing_no_key_env fresh_world demo_extract_request)) = 500
   \<and> map status
         (property_sessions (snd (extract_POST refusing_no_key_env fresh_world demo_extract_request)))
       = [AI_PARSED]"
  by code_simp

section \<open>Default preferences\<close>

lemma default_preferences_missing:
  "checkMinimumPreferences (defaultPreferences uid) = (False, [''work_postcode''])"
  by code_simp

lemma default_work_postcode:
  "js_get (defaultPreferences uid) ''work_postcode'' = Some (JStr [])"
  by code_simp

lemma stats_POST_default_frame:
  assumes "st_token req = Some token" "getUser e token = Some uid"
    and "map_of (preferences w) uid = Some (defaultPreferences uid)"
  shows "snd (stats_POST e w req) = w"
    and "http_status (fst (stats_POST e w req)) \<in> {400, 403, 500}"
  using assms
  by (simp_all add: stats_POST_def default_preferences_missing Let_def caught_def
      split: option.split sum.split)

lemma preferences_GET_creates:
  assumes "getUser e token = Some uid" "map_of (preferences w) uid = None"
  shows "map_of (preferences (snd (preferences_GET e w (Some token)))) uid
           = Some (defaultPreferences uid)"
  using assms by (simp add: preferences_GET_def Let_def map_add_def)

text \<open>
  C10 (as amended).  The defaults have \<open>work_postcode\<close> empty, and
  \<open>checkMinimumPreferences\<close> refuses them naming exactly \<open>work_postcode\<close>.  For an
  authenticated user whose stored preferences are the defaults, every compute-stats request
  leaves the store unchanged, so no status is written and no quota spent, and answers 400,
  403 or 500; a request that names her own session with its facts confirmed answers 400
  \<open>MIN_PREFS_MISSING\<close> with \<open>missing = ["work_postcode"]\<close>.  A first
  \<open>GET /api/preferences\<close> of a user without preferences stores the defaults.
\<close>

theorem default_preferences_block_stats:
  assumes auth: "st_token req = Some token" "getUser e token = Some uid"
    and prefs: "map_of (preferences w) uid = Some (defaultPreferences uid)"
  shows "js_get (defaultPreferences uid) ''work_postcode'' = Some (JStr [])
       \<and> checkMinimumPreferences (defaultPreferences uid) = (False, [''work_postcode''])
       \<and> snd (stats_POST e w req) = w
       \<and> http_status (fst (stats_POST e w req)) \<in> {400, 403, 500}
       \<and> (st_property_session_id req = Some sid \<and> sid \<noteq> []
            \<and> filter (\<lambda>r. s_id r = sid) (property_sessions w) = [session]
            \<and> s_user_id session = uid
            \<and> map_of (listing_facts_confirmed w) sid = Some facts \<longrightarrow>
            stats_POST e w req =
              (Response 400
                 (JObj [(''error'', JStr ''MIN_PREFS_MISSING''),
                        (''missing'', JArr [JStr ''work_postcode''])]),
               w))
       \<and> (map_of (preferences w0) uid = None \<longrightarrow>
            map_of (preferences (snd (preferences_GET e w0 (Some token)))) uid
              = Some (defaultPreferences uid))"
proof -
  have a: "stats_POST e w req =
              (Response 400
                 (JObj [(''error'', JStr ''MIN_PREFS_MISSING''),
                        (''missing'', JArr [JStr ''work_postcode''])]),
               w)"
    if "st_property_session_id req = Some sid" "sid \<noteq> []"
      "filter (\<lambda>r. s_id r = sid) (property_sessions w) = [session]"
      "s_user_id session = uid" "map_of (listing_facts_confirmed w) sid = Some facts"
    using that auth prefs
    by (simp add: stats_POST_def default_preferences_missing Let_def)
  from a stats_POST_default_frame [OF auth prefs] preferences_GET_creates [OF auth(2)]
    default_preferences_missing default_work_postcode
  show ?thesis by blast
qed

theorem default_preferences_block_stats_witness:
  "map_of (preferences new_user_world) ''alice'' = None
   \<and> map_of (preferences first_get_world) ''alice'' = Some (defaultPreferences ''alice'')
   \<and> stats_POST demo_env first_get_world demo_stats_request
     = (Response 400
          (JObj [(''error'', JStr ''MIN_PREFS_MISSING''), (''missing'', JArr [JStr ''work_postcode''])]),
        first_get_world)"
proof -
  have auth: "st_token demo_stats_request = Some ''token-alice''"
    "getUser demo_env ''token-alice'' = Some ''alice''"
    by (simp_all add: demo_stats_request_def demo_env_def)
  have none: "map_of (preferences new_user_world) ''alice'' = None"
    by (simp add: new_user_world_def)
  have prefs: "map_of (preferences first_get_world) ''alice'' = Some (defaultPreferences ''alice'')"
    unfolding first_get_world_def by (rule preferences_GET_creates [OF auth(2) none])
  have w: "first_get_world
      = new_user_world\<lparr>preferences := [(''alice'', defaultPreferences ''alice'')]\<rparr>"
    by (simp add: first_get_world_def preferences_GET_def demo_env_def new_user_world_def Let_def)
  have sid: "st_property_session_id demo_stats_request = Some ''s1''" "''s1'' \<noteq> []"
    by (simp_all add: demo_stats_request_def)
  have one: "filter (\<lambda>r. s_id r = ''s1'') (property_sessions first_get_world) =
     [\<lparr>s_id = ''s1'', s_user_id = ''alice'',
       rightmove_url = ''https://www.rightmove.co.uk/properties/170645465'',
       rightmove_listing_id = Some ''170645465'', status = CONFIRMED,
       last_extracted_at = None\<rparr>]"
    by (simp add: w new_user_world_def demo_world_def)
  have facts: "map_of (listing_facts_confirmed first_get_world) ''s1''
      = Some (JObj [(''property_session_id'', JStr ''s1''), (''price'', JNum 450000)])"
    by (simp add: w new_user_world_def demo_world_def)
  from default_preferences_block_stats [where sid = "''s1''"
      and facts = "JObj [(''property_session_id'', JStr ''s1''), (''price'', JNum 450000)]"
      and session = "\<lparr>s_id = ''s1'', s_user_id = ''alice'',
       rightmove_url = ''https://www.rightmove.co.uk/properties/170645465'',
       rightmove_listing_id = Some ''170645465'', status = CONFIRMED,
       last_extracted_at = None\<rparr>", OF auth prefs] sid one facts
  have "stats_POST demo_env first_get_world demo_stats_request
     = (Response 400
          (JObj [(''error'', JStr ''MIN_PREFS_MISSING''), (''missing'', JArr [JStr ''work_postcode''])]),
        first_get_world)"
    by simp
  with none prefs show ?thesis by simp
qed

text \<open>
  With the defaults but the listing's facts not confirmed, the answer is that of the earlier
  check: 400 \<open>Listing not confirmed\<close>, not \<open>MIN_PREFS_MISSING\<close>.
\<close>

theorem unconfirmed_listing_counterexample:
  "map_of (preferences unconfirmed_world) ''alice'' = Some (defaultPreferences ''alice'')
   \<and> map_of (listing_facts_confirmed unconfirmed_world) ''s1'' = None
   \<and> fst (stats_POST demo_env unconfirmed_world demo_stats_request)
       = Response 400 (JObj [(''error'', JStr ''Listing not confirmed'')])"
  by code_simp

end
